theory Spec2Isabelle
  imports Main
begin

section \<open>JavaScript strings and JSON values\<close>

text \<open>
  A JavaScript string is a sequence of UTF-16 code units; a code unit is modelled by its
  number.  \<open>str ''abc''\<close> is the string of an ASCII literal.
\<close>

type_synonym jsstring = "nat list"

abbreviation str :: "string \<Rightarrow> jsstring" where
  "str s \<equiv> map of_char s"

text \<open>
  White space as \<open>String.prototype.trim\<close> and the regular-expression class \<open>\s\<close> see it
  (the same set: WhiteSpace and LineTerminator of ECMAScript).
\<close>

definition is_space :: "nat \<Rightarrow> bool" where
  "is_space c \<longleftrightarrow>
     c \<in> set [9, 10, 11, 12, 13, 32, 160, 5760, 8232, 8233, 8239, 8287, 12288, 65279]
     \<or> (8192 \<le> c \<and> c \<le> 8202)"

definition trim :: "jsstring \<Rightarrow> jsstring" where
  "trim s = rev (dropWhile is_space (rev (dropWhile is_space s)))"

definition startsWith :: "jsstring \<Rightarrow> jsstring \<Rightarrow> bool" where
  "startsWith s p \<longleftrightarrow> take (length p) s = p"

definition endsWith :: "jsstring \<Rightarrow> jsstring \<Rightarrow> bool" where
  "endsWith s p \<longleftrightarrow> length p \<le> length s \<and> drop (length s - length p) s = p"

fun join :: "jsstring \<Rightarrow> jsstring list \<Rightarrow> jsstring" where
  "join sep [] = []"
| "join sep [x] = x"
| "join sep (x # y # ys) = x @ sep @ join sep (y # ys)"

text \<open>Decimal text of a natural number, as a template literal prints a small integer.\<close>

fun digits_of :: "nat \<Rightarrow> nat \<Rightarrow> nat list" where
  "digits_of 0 n = []"
| "digits_of (Suc fuel) n =
     (if n < 10 then [48 + n] else digits_of fuel (n div 10) @ [48 + n mod 10])"

definition show_nat :: "nat \<Rightarrow> jsstring" where
  "show_nat n = digits_of (Suc n) n"

text \<open>
  The values \<open>JSON.parse\<close> produces.  A number keeps its lexeme (no floating point is
  modelled); an object is the list of its own properties in the order in which
  JavaScript enumerates them.
\<close>

datatype jsval =
    JNull
  | JBool bool
  | JNum jsstring
  | JStr jsstring
  | JArr "jsval list"
  | JObj "(jsstring \<times> jsval) list"

type_synonym props = "(jsstring \<times> jsval) list"

definition get_prop :: "jsstring \<Rightarrow> props \<Rightarrow> jsval option" where
  "get_prop k ps = map_of ps k"

text \<open>
  JavaScript enumerates the own properties whose names are array indices first, in
  ascending order, and the others after them in the order of their creation.
  \<open>array_index\<close> reads a property name as an array index, \<open>add_prop\<close> creates a
  property at its place in that order, \<open>update_prop\<close> overwrites an existing one where
  it stands.
\<close>

definition array_index :: "jsstring \<Rightarrow> nat option" where
  "array_index k =
     (if k = [48] then Some 0
      else if k \<noteq> [] \<and> list_all (\<lambda>c. 48 \<le> c \<and> c \<le> 57) k \<and> hd k \<noteq> 48
              \<and> foldl (\<lambda>a c. a * 10 + (c - 48)) 0 k < 4294967295
      then Some (foldl (\<lambda>a c. a * 10 + (c - 48)) 0 k)
      else None)"

fun add_prop :: "jsstring \<Rightarrow> jsval \<Rightarrow> props \<Rightarrow> props" where
  "add_prop k v [] = [(k, v)]"
| "add_prop k v ((k', v') # ps) =
     (case array_index k of
        None \<Rightarrow> (k', v') # add_prop k v ps
      | Some n \<Rightarrow>
          (case array_index k' of
             Some m \<Rightarrow> if m < n then (k', v') # add_prop k v ps else (k, v) # (k', v') # ps
           | None \<Rightarrow> (k, v) # (k', v') # ps))"

fun update_prop :: "jsstring \<Rightarrow> jsval \<Rightarrow> props \<Rightarrow> props" where
  "update_prop k v [] = []"
| "update_prop k v ((k', v') # ps) =
     (if k' = k then (k, v) # ps else (k', v') # update_prop k v ps)"

definition set_prop :: "jsstring \<Rightarrow> jsval \<Rightarrow> props \<Rightarrow> props" where
  "set_prop k v ps = (if k \<in> fst ` set ps then update_prop k v ps else add_prop k v ps)"

definition del_prop :: "jsstring \<Rightarrow> props \<Rightarrow> props" where
  "del_prop k ps = filter (\<lambda>kv. fst kv \<noteq> k) ps"

subsection \<open>\<open>JSON.parse\<close>\<close>

text \<open>
  \<open>JSON.parse\<close> belongs to the runtime, not to the repository; it is modelled by a lexer
  and a stack machine over the tokens, following the JSON grammar.  \<open>None\<close> is the
  \<open>SyntaxError\<close> it throws.
\<close>

datatype token =
    TLBrack | TRBrack | TLBrace | TRBrace | TComma | TColon
  | TStr jsstring | TNum jsstring | TTrue | TFalse | TNull

definition json_ws :: "nat \<Rightarrow> bool" where
  "json_ws c \<longleftrightarrow> c = 9 \<or> c = 10 \<or> c = 13 \<or> c = 32"

definition is_digit :: "nat \<Rightarrow> bool" where
  "is_digit c \<longleftrightarrow> 48 \<le> c \<and> c \<le> 57"

definition hexval :: "nat \<Rightarrow> nat option" where
  "hexval c =
     (if 48 \<le> c \<and> c \<le> 57 then Some (c - 48)
      else if 97 \<le> c \<and> c \<le> 102 then Some (c - 87)
      else if 65 \<le> c \<and> c \<le> 70 then Some (c - 55)
      else None)"

definition unescape :: "nat \<Rightarrow> nat option" where
  "unescape e =
     (if e = 34 then Some 34 else if e = 92 then Some 92 else if e = 47 then Some 47
      else if e = 98 then Some 8 else if e = 102 then Some 12 else if e = 110 then Some 10
      else if e = 114 then Some 13 else if e = 116 then Some 9 else None)"

definition cons_char :: "nat \<Rightarrow> (jsstring \<times> jsstring) option \<Rightarrow> (jsstring \<times> jsstring) option" where
  "cons_char u r = map_option (\<lambda>(s, rest). (u # s, rest)) r"

text \<open>The text after an opening quote: the decoded string and what follows the closing quote.\<close>

fun lex_string :: "jsstring \<Rightarrow> (jsstring \<times> jsstring) option" where
  "lex_string [] = None"
| "lex_string (c # cs) =
     (if c = 34 then Some ([], cs)
      else if c = 92 then
        (case cs of
           [] \<Rightarrow> None
         | e # cs1 \<Rightarrow>
             (if e = 117 then
                (case cs1 of
                   a # b # c' # d # cs2 \<Rightarrow>
                     (case (hexval a, hexval b, hexval c', hexval d) of
                        (Some x3, Some x2, Some x1, Some x0) \<Rightarrow>
                          cons_char (((x3 * 16 + x2) * 16 + x1) * 16 + x0) (lex_string cs2)
                      | _ \<Rightarrow> None)
                 | _ \<Rightarrow> None)
              else (case unescape e of
                      None \<Rightarrow> None
                    | Some u \<Rightarrow> cons_char u (lex_string cs1))))
      else if c < 32 then None
      else cons_char c (lex_string cs))"

definition num_char :: "nat \<Rightarrow> bool" where
  "num_char c \<longleftrightarrow> is_digit c \<or> c = 43 \<or> c = 45 \<or> c = 46 \<or> c = 101 \<or> c = 69"

text \<open>The JSON number grammar: \<open>-? (0 | [1-9][0-9]*) (. [0-9]+)? ([eE] [+-]? [0-9]+)?\<close>.\<close>

definition valid_exponent :: "jsstring \<Rightarrow> bool" where
  "valid_exponent s =
     (case s of
        [] \<Rightarrow> True
      | e # r \<Rightarrow>
          (e = 101 \<or> e = 69) \<and>
          (let r1 = (case r of [] \<Rightarrow> [] | g # r' \<Rightarrow> if g = 43 \<or> g = 45 then r' else r)
           in r1 \<noteq> [] \<and> list_all is_digit r1))"

definition valid_fraction :: "jsstring \<Rightarrow> bool" where
  "valid_fraction s =
     (case s of
        [] \<Rightarrow> True
      | p # r \<Rightarrow>
          if p = 46 then takeWhile is_digit r \<noteq> [] \<and> valid_exponent (dropWhile is_digit r)
          else valid_exponent s)"

definition valid_number :: "jsstring \<Rightarrow> bool" where
  "valid_number s =
     (let s1 = (case s of [] \<Rightarrow> [] | m # r \<Rightarrow> if m = 45 then r else s);
          ds = takeWhile is_digit s1
      in ds \<noteq> [] \<and> (hd ds = 48 \<longrightarrow> length ds = 1) \<and> valid_fraction (dropWhile is_digit s1))"

definition cons_tok :: "token \<Rightarrow> token list option \<Rightarrow> token list option" where
  "cons_tok t r = map_option (\<lambda>ts. t # ts) r"

function lex :: "jsstring \<Rightarrow> token list option" where
  "lex [] = Some []"
| "lex (c # cs) =
     (if json_ws c then lex cs
      else if c = 91 then cons_tok TLBrack (lex cs)
      else if c = 93 then cons_tok TRBrack (lex cs)
      else if c = 123 then cons_tok TLBrace (lex cs)
      else if c = 125 then cons_tok TRBrace (lex cs)
      else if c = 44 then cons_tok TComma (lex cs)
      else if c = 58 then cons_tok TColon (lex cs)
      else if c = 34 then
        (case lex_string cs of
           None \<Rightarrow> None
         | Some (s, rest) \<Rightarrow> cons_tok (TStr s) (lex rest))
      else if c = 45 \<or> is_digit c then
        (if valid_number (c # takeWhile num_char cs)
         then cons_tok (TNum (c # takeWhile num_char cs)) (lex (dropWhile num_char cs))
         else None)
      else if take 4 (c # cs) = str ''true'' then cons_tok TTrue (lex (drop 3 cs))
      else if take 5 (c # cs) = str ''false'' then cons_tok TFalse (lex (drop 4 cs))
      else if take 4 (c # cs) = str ''null'' then cons_tok TNull (lex (drop 3 cs))
      else None)"
  by pat_completeness auto
termination
proof -
  have shorter: "lex_string cs = Some (s, rest) \<Longrightarrow> length rest < Suc (length cs)"
    for cs s rest
  proof (induction cs arbitrary: s rest rule: lex_string.induct)
    case 1
    then show ?case by simp
  next
    case (2 c cs)
    then show ?case
      by (fastforce simp: cons_char_def less_Suc_eq
          split: if_splits list.splits option.splits prod.splits)
  qed
  show ?thesis
  proof (relation "measure length", goal_cases)
    case 1
    then show ?case by simp
  next
    case (9 c cs x2 x y)
    then show ?case using shorter [of cs x y] by simp
  next
    case (10 c cs)
    then show ?case using length_dropWhile_le [of num_char cs] by simp
  qed simp_all
qed

datatype frame = FArr "jsval list" | FObj props | FKey jsstring

datatype pmode = PValue | PValueOrEnd | PKey | PKeyOrEnd | PColon | PAfter | PDone jsval

fun put_value :: "jsval \<Rightarrow> frame list \<Rightarrow> (frame list \<times> pmode) option" where
  "put_value v [] = Some ([], PDone v)"
| "put_value v (FArr acc # st) = Some (FArr (acc @ [v]) # st, PAfter)"
| "put_value v (FKey k # FObj ps # st) = Some (FObj (set_prop k v ps) # st, PAfter)"
| "put_value v _ = None"

definition value_start :: "frame list \<Rightarrow> token \<Rightarrow> (frame list \<times> pmode) option" where
  "value_start st tok =
     (case tok of
        TStr s \<Rightarrow> put_value (JStr s) st
      | TNum n \<Rightarrow> put_value (JNum n) st
      | TTrue \<Rightarrow> put_value (JBool True) st
      | TFalse \<Rightarrow> put_value (JBool False) st
      | TNull \<Rightarrow> put_value JNull st
      | TLBrack \<Rightarrow> Some (FArr [] # st, PValueOrEnd)
      | TLBrace \<Rightarrow> Some (FObj [] # st, PKeyOrEnd)
      | _ \<Rightarrow> None)"

definition close_arr :: "frame list \<Rightarrow> (frame list \<times> pmode) option" where
  "close_arr st = (case st of FArr acc # st' \<Rightarrow> put_value (JArr acc) st' | _ \<Rightarrow> None)"

definition close_obj :: "frame list \<Rightarrow> (frame list \<times> pmode) option" where
  "close_obj st = (case st of FObj ps # st' \<Rightarrow> put_value (JObj ps) st' | _ \<Rightarrow> None)"

fun pstep :: "frame list \<times> pmode \<Rightarrow> token \<Rightarrow> (frame list \<times> pmode) option" where
  "pstep (st, PValue) tok = value_start st tok"
| "pstep (st, PValueOrEnd) tok = (if tok = TRBrack then close_arr st else value_start st tok)"
| "pstep (st, PKey) tok = (case tok of TStr k \<Rightarrow> Some (FKey k # st, PColon) | _ \<Rightarrow> None)"
| "pstep (st, PKeyOrEnd) tok =
     (case tok of
        TStr k \<Rightarrow> Some (FKey k # st, PColon)
      | TRBrace \<Rightarrow> close_obj st
      | _ \<Rightarrow> None)"
| "pstep (st, PColon) tok = (if tok = TColon then Some (st, PValue) else None)"
| "pstep (st, PAfter) tok =
     (case tok of
        TComma \<Rightarrow>
          (case st of
             FArr _ # _ \<Rightarrow> Some (st, PValue)
           | FObj _ # _ \<Rightarrow> Some (st, PKey)
           | _ \<Rightarrow> None)
      | TRBrack \<Rightarrow> close_arr st
      | TRBrace \<Rightarrow> close_obj st
      | _ \<Rightarrow> None)"
| "pstep (st, PDone v) tok = None"

fun prun :: "frame list \<times> pmode \<Rightarrow> token list \<Rightarrow> jsval option" where
  "prun s [] = (case snd s of PDone v \<Rightarrow> Some v | _ \<Rightarrow> None)"
| "prun s (t # ts) = (case pstep s t of None \<Rightarrow> None | Some s' \<Rightarrow> prun s' ts)"

definition JSON_parse :: "jsstring \<Rightarrow> jsval option" where
  "JSON_parse s = (case lex s of None \<Rightarrow> None | Some ts \<Rightarrow> prun ([], PValue) ts)"

section \<open>Errors\<close>

text \<open>
  Everything the code throws.
  \<^item> \<open>Upstream st\<close>: an error of the HTTP client (image download, social-platform API);
    \<open>st\<close> is \<open>error.response.status\<close> when the error carries a response.
  \<^item> \<open>ApiError st\<close>: an error of the client library of the text and image services; its
    status is \<open>error.status\<close>, and the error has no \<open>response\<close> property.  A rate limit
    of these services is \<open>ApiError (Some 429)\<close>.
  \<^item> The three parse errors are the \<open>Error\<close> objects the generation functions create.
\<close>

datatype error =
    Upstream "nat option"
  | ApiError "nat option"
  | TypeError
  | Unparseable
  | NoJsonArrayFound
  | NotAnArray
  | FailedAfterRetries

section \<open>Response parser\<close>

text \<open>
  The parsing block of \<open>generateContentBasedOnProfileOnly\<close> (it is repeated verbatim in
  \<open>generateContentBasedOnProfileAndInstagram\<close>).

  \<open>strip_fence_prefix p\<close> is \<open>replace(/^p\s*/, '')\<close> on a string that starts with \<open>p\<close>;
  \<open>strip_fence_suffix\<close> is \<open>replace(/\s*```$/, '')\<close>: the match, if any, is the closing
  marker at the very end together with the white space just before it.
\<close>

definition strip_fence_prefix :: "jsstring \<Rightarrow> jsstring \<Rightarrow> jsstring" where
  "strip_fence_prefix p s = dropWhile is_space (drop (length p) s)"

definition strip_fence_suffix :: "jsstring \<Rightarrow> jsstring" where
  "strip_fence_suffix s =
     (if endsWith s (str ''```'') then rev (dropWhile is_space (drop 3 (rev s))) else s)"

definition cleanRaw :: "jsstring \<Rightarrow> jsstring" where
  "cleanRaw raw =
     (let cleanedRaw = trim raw
      in if startsWith cleanedRaw (str ''```json'')
         then strip_fence_suffix (strip_fence_prefix (str ''```json'') cleanedRaw)
         else if startsWith cleanedRaw (str ''```'')
         then strip_fence_suffix (strip_fence_prefix (str ''```'') cleanedRaw)
         else cleanedRaw)"

text \<open>
  \<open>raw.match(/\[[\s\S]*\]/)\<close>: the match starts at the first \<open>[\<close> and, the star being
  greedy, runs to the last \<open>]\<close> after it.
\<close>

definition bracket_match :: "jsstring \<Rightarrow> jsstring option" where
  "bracket_match raw =
     (case dropWhile (\<lambda>c. c \<noteq> 91) raw of
        [] \<Rightarrow> None
      | b # t \<Rightarrow>
          (case rev (dropWhile (\<lambda>c. c \<noteq> 93) (rev t)) of
             [] \<Rightarrow> None
           | m # ms \<Rightarrow> Some (b # m # ms)))"

definition array_or_fail :: "jsval \<Rightarrow> error + jsval list" where
  "array_or_fail suggestions = (case suggestions of JArr xs \<Rightarrow> Inr xs | _ \<Rightarrow> Inl NotAnArray)"

definition parseResponse :: "jsstring \<Rightarrow> error + jsval list" where
  "parseResponse raw =
     (case JSON_parse (cleanRaw raw) of
        Some suggestions \<Rightarrow> array_or_fail suggestions
      | None \<Rightarrow>
          (case bracket_match raw of
             Some jsonMatch \<Rightarrow>
               (case JSON_parse jsonMatch of
                  Some suggestions \<Rightarrow> array_or_fail suggestions
                | None \<Rightarrow> Inl Unparseable)
           | None \<Rightarrow> Inl NoJsonArrayFound))"

section \<open>The outside world and the stores\<close>

text \<open>
  Every interaction with something outside the process is recorded, in order, in a trace.
  Writes to the stores are recorded as well, so that the order of an eviction and a
  generation request can be read off the trace.
\<close>

datatype event =
    ChatCall jsstring
  | ImageCall jsstring
  | HttpGet jsstring
  | InstagramCall jsstring
  | RandomDraw
  | Sleep nat
  | DbDeleteMany jsstring jsstring
  | DbInsertMany jsstring nat
  | DbCreatePost jsstring
  | DbUpdate nat

text \<open>What streaming one remote image to the \<open>uploads\<close> directory can do.  After a
  write error the flag tells whether a file of that name is left behind.\<close>

datatype download = Downloaded | FetchFailed error | WriteFailed error bool

text \<open>One media object of the social platform's API (\<open>timestamp\<close> is not kept).\<close>

record ig_media =
  ig_id :: "jsstring option"
  ig_caption :: "jsstring option"
  ig_media_type :: "jsstring option"
  ig_media_url :: "jsstring option"
  ig_like_count :: "nat option"
  ig_comments_count :: "nat option"

text \<open>
  The environment: what the external services answer.  An answer may depend on the request
  and on everything that happened before it (the trace at the time of the call), so that
  a service may fail once and succeed on the retry.
  \<^item> \<open>chat_api\<close>: the text-completion service; \<open>Inr c\<close> is
    \<open>choices[0].message?.content\<close> (\<open>None\<close> when absent), \<open>Inl e\<close> a failed request
    (an \<open>ApiError\<close> when the client library raises it).
  \<^item> \<open>image_api\<close>: the image service; \<open>Inr (Some urls)\<close> when \<open>data\<close> is an array of
    images with these URLs, \<open>Inr None\<close> when \<open>data\<close> is not an array.
  \<^item> \<open>http_get\<close>: downloading one image; \<open>math_random\<close>: the text
    \<open>Math.random().toString(36).substring(2, 15)\<close>; \<open>date_now\<close>: the clock in ms.
  \<^item> \<open>number_text\<close>: the text JavaScript prints for the number with a given JSON lexeme.
  \<^item> \<open>isValidObjectId\<close>: \<open>mongoose.Types.ObjectId.isValid\<close>.
\<close>

record env =
  chat_api :: "event list \<Rightarrow> jsstring \<Rightarrow> error + jsstring option"
  image_api :: "event list \<Rightarrow> jsstring \<Rightarrow> error + jsstring list option"
  http_get :: "event list \<Rightarrow> jsstring \<Rightarrow> download"
  math_random :: "event list \<Rightarrow> jsstring"
  instagram_api :: "event list \<Rightarrow> jsstring \<Rightarrow> error + ig_media list option"
  date_now :: "event list \<Rightarrow> int"
  number_text :: "jsstring \<Rightarrow> jsstring"
  isValidObjectId :: "jsstring \<Rightarrow> bool"

record user =
  instagramConnected :: bool
  instagramAccessToken :: "jsstring option"

record profile =
  businessType :: jsstring
  toneOfVoice :: jsstring
  audienceType :: jsstring
  marketingGoals :: "jsstring list"
  contentTypes :: "jsstring list"
  postLength :: jsstring
  emojisAllowed :: bool
  favoriteEmojis :: "jsstring list"
  hashtagsStyle :: jsstring
  keywords' :: jsstring
  customHashtags :: jsstring

text \<open>
  A generated suggestion once \<open>generateImagesForSuggestions\<close> has run: its
  \<open>imageUrls\<close> property is then an array of URL strings; \<open>item_fields\<close> are its other own
  properties (title, content, hashtags, contentType, \<dots>) as the text service gave them.
\<close>

record suggestion =
  item_fields :: props
  imageUrls :: "jsstring list"

text \<open>
  A stored suggestion: the object given to \<open>insertMany\<close>, that is the suggestion and the
  four properties the controller adds.  The models' schemas are not part of the sources:
  the stores accept every document and keep it as given.
\<close>

record row =
  row_id :: nat
  row_userId :: jsstring
  row_source :: jsstring
  row_refreshed :: bool
  row_createdAt :: int
  row_doc :: suggestion

text \<open>A cached social post (the \<open>engagement\<close> sub-document repeats the two counters).\<close>

record post =
  post_userId :: jsstring
  instagramId :: jsstring
  caption :: jsstring
  mediaType :: jsstring
  mediaUrl :: jsstring
  likeCount :: nat
  commentsCount :: nat
  post_content :: jsstring
  post_contentType :: jsstring
  post_imageUrls :: "jsstring list"
  post_hashtags :: "jsstring list"

record world =
  users :: "jsstring \<rightharpoonup> user"
  profiles :: "jsstring \<rightharpoonup> profile"
  contentSuggestions :: "row list"
  instagramContentSuggestions :: "row list"
  instagramPosts :: "post list"
  uploads :: "jsstring set"
  next_id :: nat
  trace :: "event list"

definition emit :: "event \<Rightarrow> world \<Rightarrow> world" where
  "emit ev w = w\<lparr>trace := trace w @ [ev]\<rparr>"

text \<open>What a controller answers: \<open>res.status(n).json(rows)\<close>,
  \<open>res.status(n).json({error})\<close>, or \<open>next(err)\<close>.\<close>

datatype response = Json nat "row list" | JsonError nat jsstring | Next error

section \<open>Retry with backoff\<close>

text \<open>\<open>error.response?.status\<close>, the only thing the retry loop looks at.\<close>

definition status_of :: "error \<Rightarrow> nat option" where
  "status_of e = (case e of Upstream st \<Rightarrow> st | _ \<Rightarrow> None)"

text \<open>
  \<open>callWithBackoff(fn, retries = 3, delayMs = 1000)\<close>: the loop over \<open>i = 0 .. retries\<close>.
  The last branch is the \<open>throw\<close> after the loop.
\<close>

function callWithBackoff_loop ::
  "(world \<Rightarrow> (error + 'a) \<times> world) \<Rightarrow> nat \<Rightarrow> nat \<Rightarrow> nat \<Rightarrow> world \<Rightarrow> (error + 'a) \<times> world" where
  "callWithBackoff_loop fn retries i delayMs w =
     (if i \<le> retries then
        (case fn w of
           (Inr v, w1) \<Rightarrow> (Inr v, w1)
         | (Inl e, w1) \<Rightarrow>
             if status_of e = Some 429 \<and> i < retries
             then callWithBackoff_loop fn retries (i + 1) (delayMs * 2) (emit (Sleep delayMs) w1)
             else (Inl e, w1))
      else (Inl FailedAfterRetries, w))"
  by pat_completeness auto
termination
  by (relation "measure (\<lambda>(fn, retries, i, delayMs, w). Suc retries - i)") auto

declare callWithBackoff_loop.simps [simp del]

definition callWithBackoff ::
  "(world \<Rightarrow> (error + 'a) \<times> world) \<Rightarrow> nat \<Rightarrow> nat \<Rightarrow> world \<Rightarrow> (error + 'a) \<times> world" where
  "callWithBackoff fn retries delayMs w = callWithBackoff_loop fn retries 0 delayMs w"

text \<open>The delays slept so far, in order.\<close>

definition sleeps :: "world \<Rightarrow> nat list" where
  "sleeps w = concat (map (\<lambda>ev. case ev of Sleep d \<Rightarrow> [d] | _ \<Rightarrow> []) (trace w))"

section \<open>Image materializer\<close>

text \<open>\<open>downloadImageToUploads\<close> of the controller module.\<close>

definition downloadImageToUploads :: "env \<Rightarrow> jsstring \<Rightarrow> world \<Rightarrow> (error + jsstring) \<times> world" where
  "downloadImageToUploads env imageUrl w =
     (let randomString = math_random env (trace w);
          w1 = emit RandomDraw w;
          filename = str ''img-'' @ randomString @ str ''.png''
      in if filename \<in> uploads w1 then (Inr filename, w1)
         else
           (case http_get env (trace w1) imageUrl of
              FetchFailed e \<Rightarrow> (Inl e, emit (HttpGet imageUrl) w1)
            | WriteFailed e left \<Rightarrow>
                (Inl e,
                 (emit (HttpGet imageUrl) w1)
                   \<lparr>uploads := (if left then insert filename (uploads w1) else uploads w1)\<rparr>)
            | Downloaded \<Rightarrow>
                (Inr filename,
                 (emit (HttpGet imageUrl) w1)\<lparr>uploads := insert filename (uploads w1)\<rparr>)))"

text \<open>The URLs fetched so far, in order.\<close>

definition fetched :: "world \<Rightarrow> jsstring list" where
  "fetched w = concat (map (\<lambda>ev. case ev of HttpGet u \<Rightarrow> [u] | _ \<Rightarrow> []) (trace w))"

text \<open>
  The loop over the generated items that each controller runs before saving (it appears
  verbatim in \<open>getOrGenerateSuggestions\<close> and \<open>getOrGenerateUserSuggestions\<close>, and once,
  for the single item, in \<open>refreshSingleSuggestion\<close>).
\<close>

definition materialize_item :: "env \<Rightarrow> suggestion \<Rightarrow> world \<Rightarrow> suggestion \<times> world" where
  "materialize_item env item w =
     (case imageUrls item of
        [] \<Rightarrow> (item, w)
      | u # _ \<Rightarrow>
          (case downloadImageToUploads env u w of
             (Inr filename, w1) \<Rightarrow>
               (item\<lparr>imageUrls := [str ''https://aisocial.dev/api/uploads/'' @ filename]\<rparr>, w1)
           | (Inl e, w1) \<Rightarrow> (item\<lparr>imageUrls := []\<rparr>, w1)))"

fun materialize_all :: "env \<Rightarrow> suggestion list \<Rightarrow> world \<Rightarrow> suggestion list \<times> world" where
  "materialize_all env [] w = ([], w)"
| "materialize_all env (item # items) w =
     (let (item', w1) = materialize_item env item w;
          (items', w2) = materialize_all env items w1
      in (item' # items', w2))"

section \<open>Image generation for the parsed suggestions\<close>

text \<open>
  The text a template literal prints for a parsed value (\<open>ToString\<close>).  An object prints as
  \<open>[object Object]\<close> unless it has an own property \<open>toString\<close>: a JSON value is never
  callable, and then the conversion throws a \<open>TypeError\<close>.  An array prints its elements
  joined by commas, \<open>null\<close> elements as the empty text.
\<close>

fun to_text :: "(jsstring \<Rightarrow> jsstring) \<Rightarrow> jsval \<Rightarrow> error + jsstring"
  and join_text :: "(jsstring \<Rightarrow> jsstring) \<Rightarrow> jsval list \<Rightarrow> error + jsstring" where
  "to_text nt JNull = Inr (str ''null'')"
| "to_text nt (JBool b) = Inr (if b then str ''true'' else str ''false'')"
| "to_text nt (JNum n) = Inr (nt n)"
| "to_text nt (JStr s) = Inr s"
| "to_text nt (JArr xs) = join_text nt xs"
| "to_text nt (JObj ps) =
     (if str ''toString'' \<in> fst ` set ps then Inl TypeError else Inr (str ''[object Object]''))"
| "join_text nt [] = Inr []"
| "join_text nt [x] = (if x = JNull then Inr [] else to_text nt x)"
| "join_text nt (x # y # ys) =
     (case (if x = JNull then Inr [] else to_text nt x) of
        Inl e \<Rightarrow> Inl e
      | Inr s \<Rightarrow>
          (case join_text nt (y # ys) of
             Inl e \<Rightarrow> Inl e
           | Inr r \<Rightarrow> Inr (s @ [44] @ r)))"

text \<open>
  The own enumerable properties of a parsed value that is an object; an array has its
  elements under their indices.  \<open>null\<close> and the primitive values have none: reading a
  property of \<open>null\<close> throws, and so does assigning a property of a primitive value in a
  module (module code is strict).
\<close>

definition own_props :: "jsval \<Rightarrow> props option" where
  "own_props v =
     (case v of
        JObj ps \<Rightarrow> Some ps
      | JArr xs \<Rightarrow> Some (zip (map show_nat [0..<length xs]) xs)
      | _ \<Rightarrow> None)"

definition validTypes :: "jsstring list" where
  "validTypes = [str ''Post'', str ''Story'', str ''Reel'', str ''Newsletter'']"

text \<open>\<open>validTypes.includes(suggestion.contentType)\<close>.\<close>

definition includes_contentType :: "jsval option \<Rightarrow> bool" where
  "includes_contentType v = (case v of Some (JStr s) \<Rightarrow> s \<in> set validTypes | _ \<Rightarrow> False)"

definition coerce_contentType :: "props \<Rightarrow> props" where
  "coerce_contentType ps =
     (if \<not> includes_contentType (get_prop (str ''contentType'') ps)
      then set_prop (str ''contentType'') (JStr (str ''Post'')) ps
      else ps)"

definition title_text :: "env \<Rightarrow> props \<Rightarrow> error + jsstring" where
  "title_text env ps =
     (case get_prop (str ''title'') ps of
        None \<Rightarrow> Inr (str ''undefined'')
      | Some v \<Rightarrow> to_text (number_text env) v)"

definition with_images :: "props \<Rightarrow> jsstring list \<Rightarrow> suggestion" where
  "with_images ps urls = \<lparr>item_fields = del_prop (str ''imageUrls'') ps, imageUrls = urls\<rparr>"

text \<open>
  One round of the loop of \<open>generateImagesForSuggestions\<close>.  The type check and the
  prompt are computed before the \<open>try\<close>; only what happens inside the \<open>try\<close> is caught.
\<close>

definition image_step :: "env \<Rightarrow> profile \<Rightarrow> jsval \<Rightarrow> world \<Rightarrow> (error + suggestion) \<times> world" where
  "image_step env profile suggestion w =
     (case own_props suggestion of
        None \<Rightarrow> (Inl TypeError, w)
      | Some ps0 \<Rightarrow>
          (let ps = coerce_contentType ps0
           in case title_text env ps of
                Inl e \<Rightarrow> (Inl e, w)
              | Inr title \<Rightarrow>
                  (let imagePrompt = businessType profile @ str '' - '' @ title
                   in if imagePrompt = [] \<or> length (trim imagePrompt) < 5
                      then (Inr (with_images ps []), w)
                      else
                        (case image_api env (trace w) imagePrompt of
                           Inl imageError \<Rightarrow> (Inr (with_images ps []), emit (ImageCall imagePrompt) w)
                         | Inr None \<Rightarrow> (Inr (with_images ps []), emit (ImageCall imagePrompt) w)
                         | Inr (Some urls) \<Rightarrow>
                             (Inr (with_images ps urls), emit (ImageCall imagePrompt) w)))))"

fun generateImagesForSuggestions ::
  "env \<Rightarrow> profile \<Rightarrow> jsval list \<Rightarrow> world \<Rightarrow> (error + suggestion list) \<times> world" where
  "generateImagesForSuggestions env profile [] w = (Inr [], w)"
| "generateImagesForSuggestions env profile (suggestion # rest) w =
     (case image_step env profile suggestion w of
        (Inl e, w1) \<Rightarrow> (Inl e, w1)
      | (Inr s, w1) \<Rightarrow>
          (case generateImagesForSuggestions env profile rest w1 of
             (Inl e, w2) \<Rightarrow> (Inl e, w2)
           | (Inr ss, w2) \<Rightarrow> (Inr (s # ss), w2)))"

section \<open>Prompt builder\<close>

definition lines :: "jsstring list \<Rightarrow> jsstring" where
  "lines ls = concat (map (\<lambda>l. l @ [10]) ls)"

definition prompt_head :: "profile \<Rightarrow> nat \<Rightarrow> jsstring" where
  \<open>prompt_head profile count =
     lines
      [[],
       str ''Create '' @ show_nat count @ str '' social media content suggestions in JSON format.'',
       str ''Each item should include:'',
       str ''- title (string)'',
       str ''- content (string)'',
       str ''- hashtags (array of strings) based on: "'' @ hashtagsStyle profile @ str ''", "''
         @ keywords' profile @ str ''", "'' @ customHashtags profile @ str ''"'',
       str ''- contentType (one of: ''
         @ (if join (str '', '') (contentTypes profile) = [] then str ''Post''
            else join (str '', '') (contentTypes profile))
         @ str '')'',
       [],
       str ''Business Info:'',
       str ''Business Type: '' @ businessType profile,
       str ''Tone: '' @ toneOfVoice profile,
       str ''Audience: '' @ audienceType profile,
       str ''Marketing Goals: '' @ join (str '', '') (marketingGoals profile),
       str ''Post Length: '' @ postLength profile,
       str ''Use Emojis: '' @ (if emojisAllowed profile then str ''Yes'' else str ''No'')
         @ str '', Favorites: '' @ join (str '' '') (favoriteEmojis profile)]\<close>

definition prompt_tail :: jsstring where
  \<open>prompt_tail =
     lines
      [[],
       str ''IMPORTANT: Return ONLY a valid JSON array. Do not include any markdown formatting, explanations, or additional text. The response must be parseable JSON.'',
       [],
       str ''Example format:'',
       str ''['',
       str ''  {'',
       str ''    "title": "Example Title",'',
       str ''    "content": "Example content with emojis '' @ [63743, 252, 233, 226] @ str ''",'',
       str ''    "hashtags": ["example", "hashtag"],'',
       str ''    "contentType": "Post"'',
       str ''  }'',
       str '']'',
       [],
       str ''Return only the JSON array:'']\<close>

definition profile_prompt :: "profile \<Rightarrow> nat \<Rightarrow> jsstring" where
  "profile_prompt profile count = prompt_head profile count @ prompt_tail"

definition instagram_prompt :: "profile \<Rightarrow> nat \<Rightarrow> jsstring \<Rightarrow> jsstring \<Rightarrow> jsstring" where
  "instagram_prompt profile count topPostsSummary imageSection =
     prompt_head profile count
     @ lines [[], str ''Based on these top performing Instagram posts by the user:'',
              topPostsSummary, imageSection]
     @ prompt_tail"

section \<open>Text generation\<close>

text \<open>
  From the answer of the text service to the suggestions with their images: the part of
  \<open>generateContentBasedOnProfileOnly\<close> and \<open>generateContentBasedOnProfileAndInstagram\<close>
  that follows the building of the prompt.
\<close>

definition complete :: "env \<Rightarrow> profile \<Rightarrow> jsstring \<Rightarrow> world \<Rightarrow> (error + suggestion list) \<times> world" where
  "complete env profile prompt w =
     (case chat_api env (trace w) prompt of
        Inl e \<Rightarrow> (Inl e, emit (ChatCall prompt) w)
      | Inr content \<Rightarrow>
          (let raw = (case content of None \<Rightarrow> str ''[]'' | Some c \<Rightarrow> c)
           in case parseResponse raw of
                Inl e \<Rightarrow> (Inl e, emit (ChatCall prompt) w)
              | Inr suggestions \<Rightarrow>
                  generateImagesForSuggestions env profile suggestions (emit (ChatCall prompt) w)))"

definition generateContentBasedOnProfileOnly ::
  "env \<Rightarrow> profile \<Rightarrow> nat \<Rightarrow> world \<Rightarrow> (error + suggestion list) \<times> world" where
  "generateContentBasedOnProfileOnly env profile count w =
     complete env profile (profile_prompt profile count) w"

section \<open>Social performance summarizer\<close>

definition is_word :: "nat \<Rightarrow> bool" where
  "is_word c \<longleftrightarrow> (48 \<le> c \<and> c \<le> 57) \<or> (65 \<le> c \<and> c \<le> 90) \<or> (97 \<le> c \<and> c \<le> 122) \<or> c = 95"

text \<open>\<open>(caption.match(/#\w+/g) || []).map(tag => tag.substring(1))\<close>; the second argument
  is the tag being read, if the scan is inside one.\<close>

fun scan_tags :: "jsstring \<Rightarrow> jsstring option \<Rightarrow> jsstring list" where
  "scan_tags [] cur = (case cur of Some t \<Rightarrow> (if t = [] then [] else [t]) | None \<Rightarrow> [])"
| "scan_tags (c # cs) cur =
     (case cur of
        None \<Rightarrow> scan_tags cs (if c = 35 then Some [] else None)
      | Some t \<Rightarrow>
          (if is_word c then scan_tags cs (Some (t @ [c]))
           else (if t = [] then [] else [t]) @ scan_tags cs (if c = 35 then Some [] else None)))"

definition or_else :: "jsstring option \<Rightarrow> jsstring \<Rightarrow> jsstring" where
  "or_else v d = (case v of None \<Rightarrow> d | Some s \<Rightarrow> if s = [] then d else s)"

definition or_zero :: "nat option \<Rightarrow> nat" where
  "or_zero v = (case v of None \<Rightarrow> 0 | Some n \<Rightarrow> n)"

definition new_post :: "jsstring \<Rightarrow> jsstring \<Rightarrow> ig_media \<Rightarrow> post" where
  "new_post userId pid p =
     \<lparr>post_userId = userId,
      instagramId = pid,
      caption = or_else (ig_caption p) [],
      mediaType = or_else (ig_media_type p) (str ''UNKNOWN''),
      mediaUrl = or_else (ig_media_url p) [],
      likeCount = or_zero (ig_like_count p),
      commentsCount = or_zero (ig_comments_count p),
      post_content = or_else (ig_caption p) [],
      post_contentType =
        (if ig_media_type p = Some (str ''VIDEO'') then str ''Reel''
         else if ig_media_type p = Some (str ''IMAGE'') then str ''Post'' else str ''Story''),
      post_imageUrls = (if or_else (ig_media_url p) [] = [] then [] else [or_else (ig_media_url p) []]),
      post_hashtags = scan_tags (or_else (ig_caption p) []) None\<rparr>"

text \<open>One round of the loop of \<open>fetchAndStoreInstagramPosts\<close>.\<close>

definition store_post :: "jsstring \<Rightarrow> ig_media \<Rightarrow> world \<Rightarrow> world" where
  "store_post userId p w =
     (case ig_id p of
        None \<Rightarrow> w
      | Some pid \<Rightarrow>
          if pid = [] then w
          else if \<exists>q \<in> set (instagramPosts w). instagramId q = pid then w
          else emit (DbCreatePost pid) (w\<lparr>instagramPosts := instagramPosts w @ [new_post userId pid p]\<rparr>))"

fun store_posts :: "jsstring \<Rightarrow> ig_media list \<Rightarrow> world \<Rightarrow> world" where
  "store_posts userId [] w = w"
| "store_posts userId (p # ps) w = store_posts userId ps (store_post userId p w)"

definition fetchAndStoreInstagramPosts ::
  "env \<Rightarrow> jsstring \<Rightarrow> jsstring \<Rightarrow> world \<Rightarrow> (error + unit) \<times> world" where
  "fetchAndStoreInstagramPosts env userId accessToken w =
     (case instagram_api env (trace w) accessToken of
        Inl err \<Rightarrow> (Inl err, emit (InstagramCall accessToken) w)
      | Inr None \<Rightarrow> (Inr (), emit (InstagramCall accessToken) w)
      | Inr (Some posts) \<Rightarrow>
          if length posts = 0 then (Inr (), emit (InstagramCall accessToken) w)
          else (Inr (), store_posts userId posts (emit (InstagramCall accessToken) w)))"

text \<open>
  \<open>InstagramPost.find({ userId }).sort({ likeCount: -1 }).limit(5)\<close>.  The store does not
  fix the order of posts with equal counts; the model keeps them in stored order.
\<close>

definition topPosts :: "jsstring \<Rightarrow> world \<Rightarrow> post list" where
  "topPosts userId w =
     take 5 (sort_key (\<lambda>p. - int (likeCount p)) (filter (\<lambda>p. post_userId p = userId) (instagramPosts w)))"

definition summary_line :: "nat \<Rightarrow> post \<Rightarrow> jsstring" where
  \<open>summary_line idx p =
     show_nat (idx + 1) @ str ''. "''
     @ map (\<lambda>c. if c = 10 then 32 else c) (take 100 (caption p))
     @ str ''" (Likes: '' @ show_nat (likeCount p)
     @ str '', Comments: '' @ show_nat (commentsCount p) @ str '')''\<close>

definition topPostsSummary :: "post list \<Rightarrow> jsstring" where
  "topPostsSummary ps =
     (if length ps > 0 then join [10] (map (\<lambda>(idx, p). summary_line idx p) (enumerate 0 ps))
      else str ''No top performing posts found to learn from.'')"

definition topImageUrls :: "post list \<Rightarrow> jsstring list" where
  "topImageUrls ps = take 3 (filter (\<lambda>u. u \<noteq> []) (map mediaUrl ps))"

definition imageSection :: "post list \<Rightarrow> jsstring" where
  "imageSection ps =
     (if length (topImageUrls ps) \<noteq> 0
      then [10] @ str ''Here are image URLs of the top performing posts:'' @ [10]
           @ join [10] (topImageUrls ps)
      else [])"

definition generateContentBasedOnProfileAndInstagram ::
  "env \<Rightarrow> profile \<Rightarrow> jsstring \<Rightarrow> jsstring \<Rightarrow> nat \<Rightarrow> bool \<Rightarrow> world
     \<Rightarrow> (error + suggestion list) \<times> world" where
  "generateContentBasedOnProfileAndInstagram env profile userId accessToken count updateInstagramPosts w =
     (case (if updateInstagramPosts then fetchAndStoreInstagramPosts env userId accessToken w
            else (Inr (), w)) of
        (Inl err, w1) \<Rightarrow> (Inl err, w1)
      | (Inr _, w1) \<Rightarrow>
          complete env profile
            (instagram_prompt profile count (topPostsSummary (topPosts userId w1))
               (imageSection (topPosts userId w1)))
            w1)"

definition truthy :: "jsstring option \<Rightarrow> bool" where
  "truthy v = (case v of None \<Rightarrow> False | Some s \<Rightarrow> s \<noteq> [])"

definition generateContentFromProfile ::
  "env \<Rightarrow> profile \<Rightarrow> jsstring option \<Rightarrow> jsstring option \<Rightarrow> nat \<Rightarrow> bool \<Rightarrow> world
     \<Rightarrow> (error + suggestion list) \<times> world" where
  "generateContentFromProfile env profile userId accessToken count updateInstagramPosts w =
     (case (userId, accessToken) of
        (Some uid, Some token) \<Rightarrow>
          if uid \<noteq> [] \<and> token \<noteq> [] then
            (case (if updateInstagramPosts then fetchAndStoreInstagramPosts env uid token w
                   else (Inr (), w)) of
               (Inl err, w1) \<Rightarrow> (Inl err, w1)
             | (Inr _, w1) \<Rightarrow>
                 generateContentBasedOnProfileAndInstagram env profile uid token
                   count updateInstagramPosts w1)
          else generateContentBasedOnProfileOnly env profile count w
      | _ \<Rightarrow> generateContentBasedOnProfileOnly env profile count w)"

section \<open>Staleness evaluator: the controllers\<close>

definition day_ms :: int where
  "day_ms = 24 * 60 * 60 * 1000"

text \<open>The documents given to \<open>insertMany\<close>; the store numbers them from \<open>first\<close>.\<close>

definition new_rows :: "nat \<Rightarrow> jsstring \<Rightarrow> jsstring \<Rightarrow> int \<Rightarrow> suggestion list \<Rightarrow> row list" where
  "new_rows first userId source now items =
     map (\<lambda>(i, item).
            \<lparr>row_id = i, row_userId = userId, row_source = source, row_refreshed = False,
             row_createdAt = now, row_doc = item\<rparr>)
         (enumerate first items)"

text \<open>\<open>find(\<dots>).sort({ createdAt: -1 })\<close>: newest first.\<close>

definition newest_first :: "row list \<Rightarrow> row list" where
  "newest_first rows = sort_key (\<lambda>s. - row_createdAt s) rows"

definition getOrGenerateSuggestions :: "env \<Rightarrow> jsstring \<Rightarrow> world \<Rightarrow> response \<times> world" where
  "getOrGenerateSuggestions env userId w =
     (if \<not> isValidObjectId env userId then (JsonError 400 (str ''Invalid User ID format''), w)
      else
        (case users w userId of
           None \<Rightarrow> (JsonError 404 (str ''User not found''), w)
         | Some user \<Rightarrow>
             (let existing = newest_first (filter (\<lambda>s. row_userId s = userId) (contentSuggestions w));
                  isOutdated = list_ex (\<lambda>s. date_now env (trace w) - row_createdAt s > day_ms) existing
              in if length existing < 3 \<or> isOutdated then
                   (let w1 = emit (DbDeleteMany (str ''ContentSuggestion'') userId)
                               (w\<lparr>contentSuggestions :=
                                    filter (\<lambda>s. row_userId s \<noteq> userId) (contentSuggestions w)\<rparr>)
                    in case profiles w1 userId of
                         None \<Rightarrow> (JsonError 404 (str ''No business profile found''), w1)
                       | Some profile \<Rightarrow>
                           (case callWithBackoff
                                   (generateContentFromProfile env profile None None 3 False) 3 1000 w1 of
                              (Inl err, w2) \<Rightarrow> (Next err, w2)
                            | (Inr generated, w2) \<Rightarrow>
                                (let (items, w3) = materialize_all env generated w2;
                                     saved = new_rows (next_id w3) userId (str ''businessProfile'')
                                               (date_now env (trace w3)) items
                                 in (Json 200 saved,
                                     emit (DbInsertMany (str ''ContentSuggestion'') (length saved))
                                       (w3\<lparr>contentSuggestions := contentSuggestions w3 @ saved,
                                           next_id := next_id w3 + length saved\<rparr>)))))
                 else (Json 200 existing, w))))"

definition in_user_bucket :: "jsstring \<Rightarrow> row \<Rightarrow> bool" where
  "in_user_bucket userId s \<longleftrightarrow> row_userId s = userId \<and> row_source s = str ''userProfile''"

definition getOrGenerateUserSuggestions :: "env \<Rightarrow> jsstring \<Rightarrow> world \<Rightarrow> response \<times> world" where
  "getOrGenerateUserSuggestions env userId w =
     (if userId = [] then (JsonError 400 (str ''User ID is required''), w)
      else if \<not> isValidObjectId env userId then (JsonError 400 (str ''Invalid User ID format''), w)
      else
        (case users w userId of
           None \<Rightarrow> (JsonError 404 (str ''User not found''), w)
         | Some user \<Rightarrow>
             if \<not> instagramConnected user \<or> \<not> truthy (instagramAccessToken user)
             then (JsonError 401 (str ''Instagram not connected''), w)
             else
               (let existingSuggestions =
                      newest_first (filter (in_user_bucket userId) (instagramContentSuggestions w));
                    shouldGenerate =
                      (case existingSuggestions of
                         [] \<Rightarrow> True
                       | latestSuggestion # _ \<Rightarrow>
                           if date_now env (trace w) - row_createdAt latestSuggestion > day_ms then True
                           else if length existingSuggestions < 3 then True
                           else False)
                in if shouldGenerate then
                     (let w1 = emit (DbDeleteMany (str ''InstagramContentSuggestion'') userId)
                                 (w\<lparr>instagramContentSuggestions :=
                                      filter (\<lambda>s. \<not> in_user_bucket userId s)
                                        (instagramContentSuggestions w)\<rparr>)
                      in case profiles w1 userId of
                           None \<Rightarrow> (JsonError 404 (str ''No business profile found''), w1)
                         | Some profile \<Rightarrow>
                             (case callWithBackoff
                                     (generateContentFromProfile env profile (Some userId)
                                        (instagramAccessToken user) 3 True) 3 1000 w1 of
                                (Inl err, w2) \<Rightarrow> (Next err, w2)
                              | (Inr generated, w2) \<Rightarrow>
                                  (let (items, w3) = materialize_all env generated w2;
                                       saved = new_rows (next_id w3) userId (str ''userProfile'')
                                                 (date_now env (trace w3)) items
                                   in (Json 200 saved,
                                       emit (DbInsertMany (str ''InstagramContentSuggestion'') (length saved))
                                         (w3\<lparr>instagramContentSuggestions :=
                                               instagramContentSuggestions w3 @ saved,
                                             next_id := next_id w3 + length saved\<rparr>)))))
                   else (Json 200 existingSuggestions, w))))"

text \<open>
  \<open>findByIdAndUpdate(suggestionId, { ...newContent, refreshed: true, createdAt })\<close>: every
  property of the new content is set on the stored document, the others are kept.
\<close>

definition merge_props :: "props \<Rightarrow> props \<Rightarrow> props" where
  "merge_props new old = foldl (\<lambda>acc kv. set_prop (fst kv) (snd kv) acc) old new"

definition update_row :: "int \<Rightarrow> suggestion \<Rightarrow> row \<Rightarrow> row" where
  "update_row now newContent s =
     s\<lparr>row_refreshed := True,
       row_createdAt := now,
       row_doc := \<lparr>item_fields = merge_props (item_fields newContent) (item_fields (row_doc s)),
                   imageUrls = imageUrls newContent\<rparr>\<rparr>"

fun update_first :: "nat \<Rightarrow> (row \<Rightarrow> row) \<Rightarrow> row list \<Rightarrow> row list" where
  "update_first i f [] = []"
| "update_first i f (s # ss) = (if row_id s = i then f s # ss else s # update_first i f ss)"

definition refreshSingleSuggestion :: "env \<Rightarrow> jsstring \<Rightarrow> nat \<Rightarrow> world \<Rightarrow> response \<times> world" where
  "refreshSingleSuggestion env userId suggestionId w =
     (if \<not> isValidObjectId env userId then (JsonError 400 (str ''Invalid User ID format''), w)
      else
        (case profiles w userId of
           None \<Rightarrow> (JsonError 404 (str ''No business profile found''), w)
         | Some profile \<Rightarrow>
             (case callWithBackoff
                     (generateContentFromProfile env profile None None 1 False) 3 1000 w of
                (Inl err, w1) \<Rightarrow> (Next err, w1)
              | (Inr generated, w1) \<Rightarrow>
                  (case generated of
                     [] \<Rightarrow> (Next TypeError, w1)
                   | newContent # _ \<Rightarrow>
                       (let (newContent', w2) = materialize_item env newContent w1
                        in case find (\<lambda>s. row_id s = suggestionId) (contentSuggestions w2) of
                             None \<Rightarrow> (JsonError 404 (str ''Suggestion not found''), w2)
                           | Some s \<Rightarrow>
                               (Json 200 [update_row (date_now env (trace w2)) newContent' s],
                                emit (DbUpdate suggestionId)
                                  (w2\<lparr>contentSuggestions :=
                                       update_first suggestionId
                                         (update_row (date_now env (trace w2)) newContent')
                                         (contentSuggestions w2)\<rparr>)))))))"

section \<open>Example data\<close>

text \<open>An empty world, a profile and an environment in which every service answers,
  used to run the model on concrete inputs.\<close>

definition world0 :: world where
  "world0 = \<lparr>users = Map.empty, profiles = Map.empty, contentSuggestions = [],
             instagramContentSuggestions = [], instagramPosts = [], uploads = {},
             next_id = 0, trace = []\<rparr>"

definition bakery :: profile where
  "bakery = \<lparr>businessType = str ''Bakery'', toneOfVoice = str ''Friendly'', audienceType = [],
             marketingGoals = [], contentTypes = [str ''Post''], postLength = str ''medium'',
             emojisAllowed = True, favoriteEmojis = [], hashtagsStyle = str ''fewRelevant'',
             keywords' = [], customHashtags = []\<rparr>"

definition env0 :: env where
  "env0 = \<lparr>chat_api = (\<lambda>h p. Inr (Some (str ''[{},{},{}]''))),
           image_api = (\<lambda>h p. Inr (Some [str ''https://img/1'', str ''https://img/2''])),
           http_get = (\<lambda>h u. Downloaded),
           math_random = (\<lambda>h. str ''k3x9''),
           instagram_api = (\<lambda>h t. Inr (Some [])),
           date_now = (\<lambda>h. 100000000),
           number_text = (\<lambda>n. n),
           isValidObjectId = (\<lambda>s. True)\<rparr>"

text \<open>A media object of the social platform with a given id and like count, and an
  environment whose platform lists five posts, the first of them twice.\<close>

definition example_media :: "jsstring \<Rightarrow> nat \<Rightarrow> ig_media" where
  "example_media pid likes =
     \<lparr>ig_id = Some pid, ig_caption = Some (str ''Hi''), ig_media_type = Some (str ''IMAGE''),
      ig_media_url = Some (str ''https://ig/'' @ pid), ig_like_count = Some likes,
      ig_comments_count = Some 0\<rparr>"

definition five_media :: "ig_media list" where
  "five_media =
     [example_media (str ''a'') 10, example_media (str ''b'') 50, example_media (str ''c'') 5,
      example_media (str ''d'') 80, example_media (str ''e'') 20, example_media (str ''a'') 10]"

definition env_ig :: env where
  "env_ig = env0\<lparr>instagram_api := (\<lambda>h t. Inr (Some five_media))\<rparr>"

text \<open>The five posts cached after a fetch in that environment.\<close>

definition cached_five :: "jsstring \<Rightarrow> post list" where
  "cached_five uid =
     [new_post uid (str ''a'') (example_media (str ''a'') 10),
      new_post uid (str ''b'') (example_media (str ''b'') 50),
      new_post uid (str ''c'') (example_media (str ''c'') 5),
      new_post uid (str ''d'') (example_media (str ''d'') 80),
      new_post uid (str ''e'') (example_media (str ''e'') 20)]"

text \<open>An environment whose text service is rate limited: every request fails with the
  client library's error of status 429.\<close>

definition env_limited :: env where
  "env_limited = env0\<lparr>chat_api := (\<lambda>h p. Inl (ApiError (Some 429)))\<rparr>"


section \<open>Observations on worlds\<close>

text \<open>Writes to the two suggestion stores.\<close>

definition suggestion_write :: "event \<Rightarrow> bool" where
  "suggestion_write ev =
     (case ev of
        DbDeleteMany _ _ \<Rightarrow> True
      | DbInsertMany _ _ \<Rightarrow> True
      | DbUpdate _ \<Rightarrow> True
      | _ \<Rightarrow> False)"

text \<open>
  \<open>generation_frame w w'\<close>: from \<open>w\<close> to \<open>w'\<close> the users, the profiles and both
  suggestion stores are untouched, and the trace has only grown, by events that are not
  writes to a suggestion store.
\<close>

definition generation_frame :: "world \<Rightarrow> world \<Rightarrow> bool" where
  "generation_frame w w' \<longleftrightarrow>
     users w' = users w \<and> profiles w' = profiles w
     \<and> contentSuggestions w' = contentSuggestions w
     \<and> instagramContentSuggestions w' = instagramContentSuggestions w
     \<and> next_id w' = next_id w
     \<and> (\<exists>evs. trace w' = trace w @ evs \<and> (\<forall>ev\<in>set evs. \<not> suggestion_write ev))"

definition post_ids :: "world \<Rightarrow> jsstring set" where
  "post_ids w = instagramId ` set (instagramPosts w)"



section \<open>The example data, evaluated\<close>

lemma env0_simps [simp]:
  "math_random env0 h = str ''k3x9''" "http_get env0 h u = Downloaded"
  "chat_api env0 h p = Inr (Some (str ''[{},{},{}]''))"
  "image_api env0 h p = Inr (Some [str ''https://img/1'', str ''https://img/2''])"
  "instagram_api env0 h t = Inr (Some [])" "date_now env0 h = 100000000"
  "number_text env0 n = n" "isValidObjectId env0 s"
  by (simp_all add: env0_def)

lemma world0_simps [simp]:
  "users world0 = Map.empty" "profiles world0 = Map.empty" "contentSuggestions world0 = []"
  "instagramContentSuggestions world0 = []" "instagramPosts world0 = []" "uploads world0 = {}"
  "next_id world0 = 0" "trace world0 = []"
  by (simp_all add: world0_def)

section \<open>Properties of the response parser\<close>

lemma dropWhile_hd_id: "s \<noteq> [] \<Longrightarrow> \<not> P (hd s) \<Longrightarrow> dropWhile P s = s"
  by (cases s) auto

lemma dropWhile_skip: "\<forall>x\<in>set xs. P x \<Longrightarrow> dropWhile P (xs @ ys) = dropWhile P ys"
  by (induction xs) auto





lemma strip_fence_prefix_ws:
  assumes "\<forall>x\<in>set ws. is_space x" "body \<noteq> []" "\<not> is_space (hd body)"
  shows "strip_fence_prefix p (p @ ws @ body) = body"
  using assms by (simp add: strip_fence_prefix_def dropWhile_skip dropWhile_hd_id)




lemmas json_eval = JSON_parse_def json_ws_def cons_tok_def value_start_def close_arr_def
  close_obj_def cons_char_def is_digit_def set_prop_def array_index_def


lemma parse_three_objects: "JSON_parse (str ''[{},{},{}]'') = Some (JArr [JObj [], JObj [], JObj []])"
  by (simp add: json_eval)


subsection \<open>A text that ends with a bracket parses only if it starts with one\<close>










subsection \<open>The token machine\<close>








subsection \<open>The cleaning step\<close>















text \<open>What the fallback pattern matches, read backwards.\<close>

lemma bracket_match_sound:
  assumes "bracket_match raw = Some m"
  shows "\<exists>pre post. raw = pre @ m @ post \<and> 91 \<notin> set pre \<and> 93 \<notin> set post
           \<and> hd m = 91 \<and> last m = 93 \<and> 2 \<le> length m"
proof -
  define pre where "pre = takeWhile (\<lambda>c. c \<noteq> 91) raw"
  obtain b t where bt: "dropWhile (\<lambda>c. c \<noteq> 91) raw = b # t"
    using assms by (auto simp: bracket_match_def split: list.splits)
  have b: "b = 91" using hd_dropWhile [of "\<lambda>c. c \<noteq> 91" raw] bt by simp
  define k where "k = rev (dropWhile (\<lambda>c. c \<noteq> 93) (rev t))"
  define post where "post = rev (takeWhile (\<lambda>c. c \<noteq> 93) (rev t))"
  have "(case k of [] \<Rightarrow> None | x # xs \<Rightarrow> Some (b # x # xs)) = Some m"
    using assms unfolding bracket_match_def bt k_def by (simp only: list.case)
  then have k: "k \<noteq> []" "m = b # k" by (cases k; simp)+
  have "k @ post = rev (takeWhile (\<lambda>c. c \<noteq> 93) (rev t) @ dropWhile (\<lambda>c. c \<noteq> 93) (rev t))"
    unfolding k_def post_def by (simp only: rev_append)
  then have t: "t = k @ post" by (simp only: takeWhile_dropWhile_id rev_rev_ident)
  have "raw = pre @ b # t" using bt by (metis pre_def takeWhile_dropWhile_id)
  then have 1: "raw = pre @ m @ post" using t k by simp
  have 2: "91 \<notin> set pre" by (auto simp: pre_def dest: set_takeWhileD)
  have 3: "93 \<notin> set post" by (auto simp: post_def dest: set_takeWhileD)
  have "dropWhile (\<lambda>c. c \<noteq> 93) (rev t) \<noteq> []" using k(1) by (simp add: k_def)
  then have "hd (dropWhile (\<lambda>c. c \<noteq> 93) (rev t)) = 93"
    using hd_dropWhile [of "\<lambda>c. c \<noteq> 93" "rev t"] by simp
  then have "last k = 93" using k(1) by (simp add: k_def last_rev)
  then have 4: "last m = 93" using k by simp
  show ?thesis using 1 2 3 4 b k by (intro exI [of _ pre] exI [of _ post]) (cases k; simp)
qed















section \<open>The retry loop\<close>

lemma loop_ok:
  "fn w = (Inr v, w1) \<Longrightarrow> i \<le> retries \<Longrightarrow> callWithBackoff_loop fn retries i d w = (Inr v, w1)"
  by (subst callWithBackoff_loop.simps) simp

lemma loop_retry:
  "fn w = (Inl e, w1) \<Longrightarrow> status_of e = Some 429 \<Longrightarrow> i < retries \<Longrightarrow>
   callWithBackoff_loop fn retries i d w
     = callWithBackoff_loop fn retries (i + 1) (d * 2) (emit (Sleep d) w1)"
  by (subst callWithBackoff_loop.simps) simp

lemma loop_throw:
  "fn w = (Inl e, w1) \<Longrightarrow> \<not> (status_of e = Some 429 \<and> i < retries) \<Longrightarrow> i \<le> retries \<Longrightarrow>
   callWithBackoff_loop fn retries i d w = (Inl e, w1)"
  by (subst callWithBackoff_loop.simps) auto

lemma loop_exhausted:
  "\<not> i \<le> retries \<Longrightarrow> callWithBackoff_loop fn retries i d w = (Inl FailedAfterRetries, w)"
  by (subst callWithBackoff_loop.simps) simp

text \<open>A rule for the retry loop: a relation between worlds that every run of the
  operation and every sleep respect, and a property of every result of the operation.\<close>

lemma loop_rule:
  assumes refl: "\<And>w. R w w"
    and trans: "\<And>a b c. R a b \<Longrightarrow> R b c \<Longrightarrow> R a c"
    and sleep: "\<And>w d. R w (emit (Sleep d) w)"
    and fn: "\<And>w. R w (snd (fn w)) \<and> Q (fst (fn w))"
    and exhausted: "Q (Inl FailedAfterRetries)"
  shows "R w (snd (callWithBackoff_loop fn retries i d w))
       \<and> Q (fst (callWithBackoff_loop fn retries i d w))"
proof (induction "Suc retries - i" arbitrary: i d w)
  case 0
  then have "\<not> i \<le> retries" by simp
  then show ?case by (simp add: loop_exhausted refl exhausted)
next
  case (Suc n)
  then have i: "i \<le> retries" by simp
  obtain r w1 where f: "fn w = (r, w1)" by (cases "fn w")
  then have w1: "R w w1" and q: "Q r" using fn [of w] by simp_all
  show ?case
  proof (cases r)
    case (Inr v)
    then show ?thesis using loop_ok [of fn w v w1 i retries d] f i w1 q by simp
  next
    case (Inl e)
    show ?thesis
    proof (cases "status_of e = Some 429 \<and> i < retries")
      case True
      then have n: "n = Suc retries - (i + 1)" using Suc.hyps(2) by simp
      have step: "callWithBackoff_loop fn retries i d w
          = callWithBackoff_loop fn retries (i + 1) (d * 2) (emit (Sleep d) w1)"
        using loop_retry [of fn w e w1 i retries d] f Inl True by simp
      have "R w (emit (Sleep d) w1)" using trans [OF w1 sleep] .
      then show ?thesis
        unfolding step
        using Suc.hyps(1) [OF n, where d = "d * 2" and w = "emit (Sleep d) w1"] trans by blast
    next
      case False
      then show ?thesis using loop_throw [of fn w e w1 i retries d] f Inl i w1 q by simp
    qed
  qed
qed

section \<open>Properties of the retry wrapper\<close>
lemma sleeps_emit: "sleeps (emit ev w) = sleeps w @ (case ev of Sleep d \<Rightarrow> [d] | _ \<Rightarrow> [])"
  by (simp add: sleeps_def emit_def)

lemma loop_limited:
  assumes lim: "\<And>w. \<exists>e w'. fn w = (Inl e, w') \<and> status_of e = Some 429"
    and i: "i \<le> retries"
  shows "(\<exists>e. fst (callWithBackoff_loop fn retries i d w) = Inl e \<and> status_of e = Some 429)
    \<and> ((\<forall>w. sleeps (snd (fn w)) = sleeps w) \<longrightarrow>
         sleeps (snd (callWithBackoff_loop fn retries i d w))
           = sleeps w @ map (\<lambda>k. d * 2 ^ k) [0..<retries - i])"
  using i
proof (induction "retries - i" arbitrary: i d w)
  case 0
  then have i: "i = retries" by simp
  obtain e w' where f: "fn w = (Inl e, w')" "status_of e = Some 429" using lim by blast
  have "callWithBackoff_loop fn retries i d w = (Inl e, w')"
    using f i by (intro loop_throw) auto
  then show ?case using f i by (auto dest: spec [of _ w])
next
  case (Suc n)
  then have i: "i < retries" and n: "n = retries - (i + 1)" and le: "i + 1 \<le> retries" by auto
  obtain e w' where f: "fn w = (Inl e, w')" "status_of e = Some 429" using lim by blast
  have step: "callWithBackoff_loop fn retries i d w
      = callWithBackoff_loop fn retries (i + 1) (d * 2) (emit (Sleep d) w')"
    using f i by (intro loop_retry) auto
  have ups: "[0..<retries - i] = 0 # map Suc [0..<retries - (i + 1)]"
    using i by (metis Suc.hyps(2) n map_Suc_upt upt_conv_Cons zero_less_Suc)
  show ?case
    unfolding step using Suc.hyps(1) [OF n le, of "d * 2" "emit (Sleep d) w'"] f
    by (auto simp: sleeps_emit ups comp_def dest: spec [of _ w] simp: mult.assoc)
qed


text \<open>
  The wrapper on errors that carry a response.  Against an operation that always fails
  with \<open>error.response.status\<close> 429, \<open>callWithBackoff(fn, 3, 1000)\<close> runs the operation
  four times, sleeping 1000, 2000 and 4000 ms between the runs, and then fails with the
  error of the last run.  Any other failure is thrown at once, without a sleep or a
  second run; a success is returned at once.
\<close>

lemma backoff_on_response_status:
  "((\<forall>w. \<exists>e w'. fn w = (Inl e, w') \<and> status_of e = Some 429) \<longrightarrow>
       (let w1 = snd (fn w);
            w2 = snd (fn (emit (Sleep 1000) w1));
            w3 = snd (fn (emit (Sleep 2000) w2))
        in callWithBackoff fn 3 1000 w = fn (emit (Sleep 4000) w3))
       \<and> (\<exists>e. fst (callWithBackoff fn 3 1000 w) = Inl e \<and> status_of e = Some 429))
   \<and> ((\<forall>w. \<exists>e w'. fn w = (Inl e, w') \<and> status_of e = Some 429)
        \<and> (\<forall>w. sleeps (snd (fn w)) = sleeps w) \<longrightarrow>
       sleeps (snd (callWithBackoff fn 3 1000 w)) = sleeps w @ [1000, 2000, 4000])
   \<and> (fn w = (Inl e, w') \<and> status_of e \<noteq> Some 429 \<longrightarrow>
       callWithBackoff fn retries delayMs w = (Inl e, w'))
   \<and> (fn w = (Inr v, w') \<longrightarrow> callWithBackoff fn retries delayMs w = (Inr v, w'))"
proof (intro conjI impI)
  assume lim: "\<forall>w. \<exists>e w'. fn w = (Inl e, w') \<and> status_of e = Some 429"
  obtain e1 w1 where 1: "fn w = (Inl e1, w1)" "status_of e1 = Some 429"
    using lim by blast
  obtain e2 w2 where 2: "fn (emit (Sleep 1000) w1) = (Inl e2, w2)" "status_of e2 = Some 429"
    using lim by blast
  obtain e3 w3 where 3: "fn (emit (Sleep 2000) w2) = (Inl e3, w3)" "status_of e3 = Some 429"
    using lim by blast
  obtain e4 w4 where 4: "fn (emit (Sleep 4000) w3) = (Inl e4, w4)" "status_of e4 = Some 429"
    using lim by blast
  have "callWithBackoff fn 3 1000 w = callWithBackoff_loop fn 3 (Suc 0) 2000 (emit (Sleep 1000) w1)"
    unfolding callWithBackoff_def using loop_retry [of fn w e1 w1 0 3 1000] 1 by simp
  also have "\<dots> = callWithBackoff_loop fn 3 (Suc (Suc 0)) 4000 (emit (Sleep 2000) w2)"
    using loop_retry [of fn "emit (Sleep 1000) w1" e2 w2 "Suc 0" 3 2000] 2 by simp
  also have "\<dots> = callWithBackoff_loop fn 3 (Suc (Suc (Suc 0))) 8000 (emit (Sleep 4000) w3)"
    using loop_retry [of fn "emit (Sleep 2000) w2" e3 w3 "Suc (Suc 0)" 3 4000] 3 by simp
  also have "\<dots> = (Inl e4, w4)"
    using loop_throw [of fn "emit (Sleep 4000) w3" e4 w4 "Suc (Suc (Suc 0))" 3 8000] 4 by simp
  finally have r: "callWithBackoff fn 3 1000 w = (Inl e4, w4)" .
  show "let w1 = snd (fn w);
            w2 = snd (fn (emit (Sleep 1000) w1));
            w3 = snd (fn (emit (Sleep 2000) w2))
        in callWithBackoff fn 3 1000 w = fn (emit (Sleep 4000) w3)"
    by (simp add: r 1 2 3 4)
  show "\<exists>e. fst (callWithBackoff fn 3 1000 w) = Inl e \<and> status_of e = Some 429"
    by (simp add: r 4)
next
  assume a: "(\<forall>w. \<exists>e w'. fn w = (Inl e, w') \<and> status_of e = Some 429)
        \<and> (\<forall>w. sleeps (snd (fn w)) = sleeps w)"
  then have lim: "\<And>w. \<exists>e w'. fn w = (Inl e, w') \<and> status_of e = Some 429" by blast
  have "[0..<3] = [0, 1, 2]" by (simp add: upt_rec)
  then show "sleeps (snd (callWithBackoff fn 3 1000 w)) = sleeps w @ [1000, 2000, 4000]"
    unfolding callWithBackoff_def using loop_limited [OF lim, where i = 0 and retries = 3 and d = 1000 and w = w] a by simp
next
  assume "fn w = (Inl e, w') \<and> status_of e \<noteq> Some 429"
  then show "callWithBackoff fn retries delayMs w = (Inl e, w')"
    unfolding callWithBackoff_def by (intro loop_throw) auto
next
  assume "fn w = (Inr v, w')"
  then show "callWithBackoff fn retries delayMs w = (Inr v, w')"
    unfolding callWithBackoff_def by (intro loop_ok) auto
qed

text \<open>The same at an operation whose error always carries a response of status 429,
  and at one that fails with status 500.\<close>

lemma backoff_on_response_status_example:
  "sleeps (snd (callWithBackoff (\<lambda>w. (Inl (Upstream (Some 429)) :: error + unit, emit (ChatCall []) w))
                  3 1000 world0)) = [1000, 2000, 4000]
   \<and> fst (callWithBackoff (\<lambda>w. (Inl (Upstream (Some 429)) :: error + unit, emit (ChatCall []) w))
                  3 1000 world0) = Inl (Upstream (Some 429))
   \<and> trace (snd (callWithBackoff (\<lambda>w. (Inl (Upstream (Some 429)) :: error + unit, emit (ChatCall []) w))
                  3 1000 world0))
       = [ChatCall [], Sleep 1000, ChatCall [], Sleep 2000, ChatCall [], Sleep 4000, ChatCall []]
   \<and> callWithBackoff (\<lambda>w. (Inl (Upstream (Some 500)) :: error + unit, emit (ChatCall []) w))
         3 1000 world0 = (Inl (Upstream (Some 500)), emit (ChatCall []) world0)
   \<and> callWithBackoff (\<lambda>w. (Inr () :: error + unit, w)) 3 1000 world0 = (Inr (), world0)"
  using backoff_on_response_status
      [where fn = "\<lambda>w. (Inl (Upstream (Some 429)) :: error + unit, emit (ChatCall []) w)"
         and w = world0]
    backoff_on_response_status
      [where fn = "\<lambda>w. (Inl (Upstream (Some 500)) :: error + unit, emit (ChatCall []) w)"
         and w = world0 and e = "Upstream (Some 500)" and w' = "emit (ChatCall []) world0"
         and retries = 3 and delayMs = 1000]
    backoff_on_response_status
      [where fn = "\<lambda>w. (Inr () :: error + unit, w)" and w = world0 and v = "()"
         and w' = world0 and retries = 3 and delayMs = 1000]
  by (simp add: status_of_def sleeps_emit emit_def world0_def sleeps_def)

lemma complete_chat_fails:
  "chat_api env (trace w) prompt = Inl e \<Longrightarrow>
   complete env profile prompt w = (Inl e, emit (ChatCall prompt) w)"
  by (simp add: complete_def)

lemma profile_only_generation:
  "generateContentFromProfile env profile None None count upd w
     = complete env profile (profile_prompt profile count) w"
  by (simp add: generateContentFromProfile_def generateContentBasedOnProfileOnly_def)

text \<open>
  Claim C2 at the rate-limit error of the text service.  The client library raises it
  with \<open>status\<close> 429 on the error itself and without a \<open>response\<close>; the test
  \<open>error.response?.status === 429\<close> does not see it.  The generation that the controllers
  wrap then runs once: the error is thrown at once, nothing is slept and nothing retried.
\<close>

theorem callWithBackoff_client_rate_limit:
  "callWithBackoff (generateContentFromProfile env_limited bakery None None 3 False) 3 1000 world0
     = (Inl (ApiError (Some 429)), emit (ChatCall (profile_prompt bakery 3)) world0)
   \<and> sleeps (snd (callWithBackoff (generateContentFromProfile env_limited bakery None None 3 False)
                     3 1000 world0)) = []
   \<and> trace (snd (callWithBackoff (generateContentFromProfile env_limited bakery None None 3 False)
                    3 1000 world0)) = [ChatCall (profile_prompt bakery 3)]"
proof -
  have f: "generateContentFromProfile env_limited bakery None None 3 False world0
      = (Inl (ApiError (Some 429)), emit (ChatCall (profile_prompt bakery 3)) world0)"
    unfolding profile_only_generation
    by (rule complete_chat_fails) (simp add: env_limited_def)
  have r: "callWithBackoff (generateContentFromProfile env_limited bakery None None 3 False) 3 1000 world0
      = (Inl (ApiError (Some 429)), emit (ChatCall (profile_prompt bakery 3)) world0)"
    unfolding callWithBackoff_def
    using loop_throw [of "generateContentFromProfile env_limited bakery None None 3 False" world0 "ApiError (Some 429)" "emit (ChatCall (profile_prompt bakery 3)) world0" 0 3 1000] f
    by (simp add: status_of_def)
  show ?thesis
    unfolding r by (simp add: sleeps_def emit_def world0_def)
qed

section \<open>What a generation leaves untouched\<close>

lemma frame_refl: "generation_frame w w"
  by (simp add: generation_frame_def)

lemma frame_trans: "generation_frame w w1 \<Longrightarrow> generation_frame w1 w2 \<Longrightarrow> generation_frame w w2"
  by (fastforce simp: generation_frame_def)

lemma frame_emit: "\<not> suggestion_write ev \<Longrightarrow> generation_frame w (emit ev w)"
  by (simp add: generation_frame_def emit_def)

lemma frame_emit':
  "generation_frame w w1 \<Longrightarrow> \<not> suggestion_write ev \<Longrightarrow> generation_frame w (emit ev w1)"
  using frame_trans frame_emit by blast

lemma download_frame: "generation_frame w (snd (downloadImageToUploads env u w))"
  by (auto simp: downloadImageToUploads_def Let_def generation_frame_def emit_def
      suggestion_write_def split: download.splits)

lemma materialize_item_frame: "generation_frame w (snd (materialize_item env item w))"
proof (cases "imageUrls item")
  case Nil
  then show ?thesis by (simp add: materialize_item_def frame_refl)
next
  case (Cons u us)
  obtain r w1 where d: "downloadImageToUploads env u w = (r, w1)"
    by (cases "downloadImageToUploads env u w")
  then have "generation_frame w w1" using download_frame [of w env u] by simp
  then show ?thesis using Cons d by (cases r) (simp_all add: materialize_item_def)
qed

lemma materialize_all_frame: "generation_frame w (snd (materialize_all env items w))"
proof (induction items arbitrary: w)
  case Nil
  then show ?case by (simp add: frame_refl)
next
  case (Cons item items)
  obtain item' w1 where m: "materialize_item env item w = (item', w1)"
    by (cases "materialize_item env item w")
  then have 1: "generation_frame w w1" using materialize_item_frame [of w env item] by simp
  obtain items' w2 where r: "materialize_all env items w1 = (items', w2)"
    by (cases "materialize_all env items w1")
  then have 2: "generation_frame w1 w2" using Cons [of w1] by simp
  show ?case using frame_trans [OF 1 2] by (simp add: m r)
qed

lemma image_step_frame: "generation_frame w (snd (image_step env profile s w))"
  by (auto simp: image_step_def Let_def frame_refl suggestion_write_def
      split: option.splits sum.splits intro!: frame_emit)

lemma generateImages_frame:
  "generation_frame w (snd (generateImagesForSuggestions env profile ss w))"
proof (induction ss arbitrary: w)
  case Nil
  then show ?case by (simp add: frame_refl)
next
  case (Cons s ss)
  obtain r w1 where st: "image_step env profile s w = (r, w1)"
    by (cases "image_step env profile s w")
  then have 1: "generation_frame w w1" using image_step_frame [of w env profile s] by simp
  show ?case
  proof (cases r)
    case (Inl e)
    then show ?thesis using 1 st by simp
  next
    case (Inr x)
    obtain r2 w2 where g: "generateImagesForSuggestions env profile ss w1 = (r2, w2)"
      by (cases "generateImagesForSuggestions env profile ss w1")
    then have 2: "generation_frame w1 w2" using Cons [of w1] by simp
    show ?thesis using frame_trans [OF 1 2] st Inr g by (cases r2) simp_all
  qed
qed

lemma complete_frame: "generation_frame w (snd (complete env profile prompt w))"
proof -
  have e: "generation_frame w (emit (ChatCall prompt) w)"
    by (simp add: frame_emit suggestion_write_def)
  show ?thesis
  proof (cases "chat_api env (trace w) prompt")
    case (Inl err)
    then show ?thesis by (simp add: complete_def e)
  next
    case (Inr content)
    show ?thesis
    proof (cases "parseResponse (case content of None \<Rightarrow> str ''[]'' | Some c \<Rightarrow> c)")
      case (Inl err)
      then show ?thesis using Inr by (simp add: complete_def e)
    next
      case (Inr suggestions)
      then show ?thesis
        using \<open>chat_api env (trace w) prompt = Inr content\<close>
          frame_trans [OF e generateImages_frame [of "emit (ChatCall prompt) w" env profile suggestions]]
        by (simp add: complete_def)
    qed
  qed
qed

lemma store_post_frame: "generation_frame w (store_post uid p w)"
  by (auto simp: store_post_def generation_frame_def emit_def suggestion_write_def
      split: option.splits)

lemma store_posts_frame: "generation_frame w (store_posts uid ps w)"
proof (induction ps arbitrary: w)
  case Nil
  then show ?case by (simp add: frame_refl)
next
  case (Cons p ps)
  show ?case
    using frame_trans [OF store_post_frame [of w uid p] Cons [of "store_post uid p w"]]
    by simp
qed

lemma fetch_frame: "generation_frame w (snd (fetchAndStoreInstagramPosts env uid token w))"
proof -
  have e: "generation_frame w (emit (InstagramCall token) w)"
    by (simp add: frame_emit suggestion_write_def)
  show ?thesis
    using e frame_trans [OF e store_posts_frame [of "emit (InstagramCall token) w" uid]]
    by (auto simp: fetchAndStoreInstagramPosts_def split: sum.splits option.splits)
qed

lemma instagram_generation_frame:
  "generation_frame w
     (snd (generateContentBasedOnProfileAndInstagram env profile uid token count upd w))"
proof (cases upd)
  case False
  then show ?thesis
    by (simp add: generateContentBasedOnProfileAndInstagram_def complete_frame)
next
  case True
  obtain r w1 where f: "fetchAndStoreInstagramPosts env uid token w = (r, w1)"
    by (cases "fetchAndStoreInstagramPosts env uid token w")
  then have w1: "generation_frame w w1" using fetch_frame [of w env uid token] by simp
  show ?thesis
  proof (cases r)
    case (Inl err)
    then show ?thesis using True f w1
      by (simp add: generateContentBasedOnProfileAndInstagram_def)
  next
    case (Inr u)
    then show ?thesis using True f frame_trans [OF w1 complete_frame]
      by (simp add: generateContentBasedOnProfileAndInstagram_def)
  qed
qed

lemma profile_generation_frame:
  "generation_frame w (snd (generateContentBasedOnProfileOnly env profile count w))"
  by (simp add: generateContentBasedOnProfileOnly_def complete_frame)

lemma generateContentFromProfile_frame:
  "generation_frame w (snd (generateContentFromProfile env profile uid token count upd w))"
proof (cases "\<exists>u t. uid = Some u \<and> token = Some t \<and> u \<noteq> [] \<and> t \<noteq> []")
  case False
  then have "generateContentFromProfile env profile uid token count upd w
      = generateContentBasedOnProfileOnly env profile count w"
    by (auto simp: generateContentFromProfile_def split: option.splits)
  then show ?thesis by (simp add: profile_generation_frame)
next
  case True
  then obtain u t where ut: "uid = Some u" "token = Some t" "u \<noteq> []" "t \<noteq> []" by blast
  show ?thesis
  proof (cases upd)
    case False
    then show ?thesis using ut
      by (simp add: generateContentFromProfile_def instagram_generation_frame)
  next
    case True
    obtain r w1 where f: "fetchAndStoreInstagramPosts env u t w = (r, w1)"
      by (cases "fetchAndStoreInstagramPosts env u t w")
    then have w1: "generation_frame w w1" using fetch_frame [of w env u t] by simp
    show ?thesis
    proof (cases r)
      case (Inl err)
      then show ?thesis using True f w1 ut by (simp add: generateContentFromProfile_def)
    next
      case (Inr x)
      then show ?thesis using True f ut frame_trans [OF w1 instagram_generation_frame]
        by (simp add: generateContentFromProfile_def)
    qed
  qed
qed

lemma callWithBackoff_frame:
  assumes fn: "\<And>w. generation_frame w (snd (fn w))"
  shows "generation_frame w (snd (callWithBackoff fn retries d w))"
proof -
  have sl: "generation_frame w (emit (Sleep d) w)" for w d
    by (simp add: frame_emit suggestion_write_def)
  have fn': "generation_frame w (snd (fn w)) \<and> True" for w
    using fn by simp
  have "generation_frame w (snd (callWithBackoff_loop fn retries 0 d w)) \<and> True"
    using loop_rule [of generation_frame fn "\<lambda>r. True" w retries 0 d, OF frame_refl frame_trans sl fn']
    by simp
  then show ?thesis by (simp add: callWithBackoff_def)
qed

lemma callWithBackoff_fails:
  assumes "\<And>w. \<exists>e. fst (fn w) = Inl e"
  shows "\<exists>e. fst (callWithBackoff fn retries d w) = Inl e"
proof -
  have fn': "True \<and> (\<exists>e. fst (fn w) = Inl e)" for w
    using assms by simp
  have "True \<and> (\<exists>e. fst (callWithBackoff_loop fn retries 0 d w) = Inl e)"
    using loop_rule [of "\<lambda>a b. True" fn "\<lambda>r. \<exists>e. r = Inl e" w retries 0 d, OF _ _ _ fn']
    by simp
  then show ?thesis by (simp add: callWithBackoff_def)
qed

section \<open>Properties of the image materializer\<close>
lemma fetched_emit: "fetched (emit ev w) = fetched w @ (case ev of HttpGet u \<Rightarrow> [u] | _ \<Rightarrow> [])"
  by (simp add: fetched_def emit_def)

lemma fetched_uploads_update [simp]: "fetched (w\<lparr>uploads := U\<rparr>) = fetched w"
  by (simp add: fetched_def)

lemma download_name:
  "fst (downloadImageToUploads env url w) = Inr f \<Longrightarrow>
   f = str ''img-'' @ math_random env (trace w) @ str ''.png''"
  by (auto simp: downloadImageToUploads_def Let_def emit_def split: if_splits download.splits)

lemma download_skip:
  "str ''img-'' @ math_random env (trace w) @ str ''.png'' \<in> uploads w \<Longrightarrow>
   downloadImageToUploads env url w
     = (Inr (str ''img-'' @ math_random env (trace w) @ str ''.png''), emit RandomDraw w)"
  by (simp add: downloadImageToUploads_def Let_def emit_def)

lemma download_stream:
  "str ''img-'' @ math_random env (trace w) @ str ''.png'' \<notin> uploads w \<Longrightarrow>
   http_get env (trace w @ [RandomDraw]) url = Downloaded \<Longrightarrow>
   downloadImageToUploads env url w
     = (Inr (str ''img-'' @ math_random env (trace w) @ str ''.png''),
        w\<lparr>uploads := insert (str ''img-'' @ math_random env (trace w) @ str ''.png'') (uploads w),
          trace := trace w @ [RandomDraw, HttpGet url]\<rparr>)"
  by (simp add: downloadImageToUploads_def Let_def emit_def)

lemma download_fetch_failed:
  "str ''img-'' @ math_random env (trace w) @ str ''.png'' \<notin> uploads w \<Longrightarrow>
   http_get env (trace w @ [RandomDraw]) url = FetchFailed e \<Longrightarrow>
   downloadImageToUploads env url w = (Inl e, w\<lparr>trace := trace w @ [RandomDraw, HttpGet url]\<rparr>)"
  by (simp add: downloadImageToUploads_def Let_def emit_def)

lemma materialize_item_none: "imageUrls item = [] \<Longrightarrow> materialize_item env item w = (item, w)"
  by (simp add: materialize_item_def)

lemma materialize_item_skip:
  "imageUrls item = u # us \<Longrightarrow>
   str ''img-'' @ math_random env (trace w) @ str ''.png'' \<in> uploads w \<Longrightarrow>
   materialize_item env item w
     = (item\<lparr>imageUrls := [str ''https://aisocial.dev/api/uploads/''
                              @ str ''img-'' @ math_random env (trace w) @ str ''.png'']\<rparr>,
        emit RandomDraw w)"
  by (simp add: materialize_item_def download_skip)

lemma materialize_item_stream:
  "imageUrls item = u # us \<Longrightarrow>
   str ''img-'' @ math_random env (trace w) @ str ''.png'' \<notin> uploads w \<Longrightarrow>
   http_get env (trace w @ [RandomDraw]) u = Downloaded \<Longrightarrow>
   materialize_item env item w
     = (item\<lparr>imageUrls := [str ''https://aisocial.dev/api/uploads/''
                              @ str ''img-'' @ math_random env (trace w) @ str ''.png'']\<rparr>,
        w\<lparr>uploads := insert (str ''img-'' @ math_random env (trace w) @ str ''.png'') (uploads w),
          trace := trace w @ [RandomDraw, HttpGet u]\<rparr>)"
  by (simp add: materialize_item_def download_stream)

lemma materialize_item_fetch_failed:
  "imageUrls item = u # us \<Longrightarrow>
   str ''img-'' @ math_random env (trace w) @ str ''.png'' \<notin> uploads w \<Longrightarrow>
   http_get env (trace w @ [RandomDraw]) u = FetchFailed e \<Longrightarrow>
   materialize_item env item w
     = (item\<lparr>imageUrls := []\<rparr>, w\<lparr>trace := trace w @ [RandomDraw, HttpGet u]\<rparr>)"
  by (simp add: materialize_item_def download_fetch_failed)

text \<open>
  Claim C6.  The local file name is \<open>img-\<close>, a random text and \<open>.png\<close>, whatever the URL.
  When a file of that name exists the download is skipped: nothing is fetched and nothing
  written.  Hence when a second request draws the name of a file that the first request
  has just downloaded, the two requests make exactly one remote fetch.  Otherwise the
  image is fetched and, when the download succeeds, the file is in the uploads directory.
  The step the controllers run on a suggestion does exactly that with the first URL of
  the suggestion: it leaves the world as the download leaves it (the fetch made, the file
  stored) and rewrites \<open>imageUrls\<close> to the locally served path of that file; a
  suggestion without URL is left alone and nothing happens.
\<close>

theorem materialize_idempotent:
  "(fst (downloadImageToUploads env url w) = Inr f
      \<longrightarrow> f = str ''img-'' @ math_random env (trace w) @ str ''.png'')
   \<and> (str ''img-'' @ math_random env (trace w) @ str ''.png'' \<in> uploads w
      \<longrightarrow> downloadImageToUploads env url w
            = (Inr (str ''img-'' @ math_random env (trace w) @ str ''.png''), emit RandomDraw w)
          \<and> fetched (snd (downloadImageToUploads env url w)) = fetched w
          \<and> uploads (snd (downloadImageToUploads env url w)) = uploads w)
   \<and> (str ''img-'' @ math_random env (trace w) @ str ''.png'' \<notin> uploads w
       \<and> http_get env (trace w @ [RandomDraw]) url = Downloaded
      \<longrightarrow> fst (downloadImageToUploads env url w)
            = Inr (str ''img-'' @ math_random env (trace w) @ str ''.png'')
          \<and> fetched (snd (downloadImageToUploads env url w)) = fetched w @ [url]
          \<and> uploads (snd (downloadImageToUploads env url w))
              = insert (str ''img-'' @ math_random env (trace w) @ str ''.png'') (uploads w))
   \<and> (str ''img-'' @ math_random env (trace w) @ str ''.png'' \<notin> uploads w
       \<and> http_get env (trace w @ [RandomDraw]) url = Downloaded
       \<and> math_random env (trace (snd (downloadImageToUploads env url w))) = math_random env (trace w)
      \<longrightarrow> fst (downloadImageToUploads env url' (snd (downloadImageToUploads env url w)))
            = Inr (str ''img-'' @ math_random env (trace w) @ str ''.png'')
          \<and> fetched (snd (downloadImageToUploads env url' (snd (downloadImageToUploads env url w))))
              = fetched w @ [url])
   \<and> (imageUrls item = u # us \<and> fst (downloadImageToUploads env u w) = Inr f
      \<longrightarrow> imageUrls (fst (materialize_item env item w))
            = [str ''https://aisocial.dev/api/uploads/'' @ f])
   \<and> (str ''img-'' @ math_random env (trace w) @ str ''.png'' \<notin> uploads w
       \<and> http_get env (trace w @ [RandomDraw]) url = Downloaded
      \<longrightarrow> downloadImageToUploads env url w
            = (Inr (str ''img-'' @ math_random env (trace w) @ str ''.png''),
               w\<lparr>uploads := insert (str ''img-'' @ math_random env (trace w) @ str ''.png'') (uploads w),
                 trace := trace w @ [RandomDraw, HttpGet url]\<rparr>))
   \<and> (imageUrls item = [] \<longrightarrow> materialize_item env item w = (item, w))
   \<and> (imageUrls item = u # us
      \<longrightarrow> snd (materialize_item env item w) = snd (downloadImageToUploads env u w))
   \<and> (imageUrls item = u # us
       \<and> str ''img-'' @ math_random env (trace w) @ str ''.png'' \<in> uploads w
      \<longrightarrow> materialize_item env item w
            = (item\<lparr>imageUrls := [str ''https://aisocial.dev/api/uploads/''
                                     @ str ''img-'' @ math_random env (trace w) @ str ''.png'']\<rparr>,
               emit RandomDraw w))
   \<and> (imageUrls item = u # us
       \<and> str ''img-'' @ math_random env (trace w) @ str ''.png'' \<notin> uploads w
       \<and> http_get env (trace w @ [RandomDraw]) u = Downloaded
      \<longrightarrow> materialize_item env item w
            = (item\<lparr>imageUrls := [str ''https://aisocial.dev/api/uploads/''
                                     @ str ''img-'' @ math_random env (trace w) @ str ''.png'']\<rparr>,
               w\<lparr>uploads := insert (str ''img-'' @ math_random env (trace w) @ str ''.png'') (uploads w),
                 trace := trace w @ [RandomDraw, HttpGet u]\<rparr>))"
proof (intro conjI impI)
  assume "fst (downloadImageToUploads env url w) = Inr f"
  then show "f = str ''img-'' @ math_random env (trace w) @ str ''.png''"
    by (rule download_name)
next
  assume a: "str ''img-'' @ math_random env (trace w) @ str ''.png'' \<in> uploads w"
  show "downloadImageToUploads env url w
      = (Inr (str ''img-'' @ math_random env (trace w) @ str ''.png''), emit RandomDraw w)"
    using a by (rule download_skip)
  show "fetched (snd (downloadImageToUploads env url w)) = fetched w"
    by (simp add: download_skip [OF a] fetched_emit)
  show "uploads (snd (downloadImageToUploads env url w)) = uploads w"
    by (simp add: download_skip [OF a] emit_def)
next
  assume a: "str ''img-'' @ math_random env (trace w) @ str ''.png'' \<notin> uploads w
       \<and> http_get env (trace w @ [RandomDraw]) url = Downloaded"
  then have d: "downloadImageToUploads env url w
     = (Inr (str ''img-'' @ math_random env (trace w) @ str ''.png''),
        w\<lparr>uploads := insert (str ''img-'' @ math_random env (trace w) @ str ''.png'') (uploads w),
          trace := trace w @ [RandomDraw, HttpGet url]\<rparr>)"
    by (intro download_stream) auto
  show "fst (downloadImageToUploads env url w)
      = Inr (str ''img-'' @ math_random env (trace w) @ str ''.png'')"
    by (simp add: d)
  show "fetched (snd (downloadImageToUploads env url w)) = fetched w @ [url]"
    by (simp add: d fetched_def)
  show "uploads (snd (downloadImageToUploads env url w))
      = insert (str ''img-'' @ math_random env (trace w) @ str ''.png'') (uploads w)"
    by (simp add: d)
next
  let ?name = "str ''img-'' @ math_random env (trace w) @ str ''.png''"
  let ?w1 = "snd (downloadImageToUploads env url w)"
  assume a: "?name \<notin> uploads w
       \<and> http_get env (trace w @ [RandomDraw]) url = Downloaded
       \<and> math_random env (trace ?w1) = math_random env (trace w)"
  then have d: "downloadImageToUploads env url w
     = (Inr ?name, w\<lparr>uploads := insert ?name (uploads w),
                       trace := trace w @ [RandomDraw, HttpGet url]\<rparr>)"
    by (intro download_stream) auto
  have same: "str ''img-'' @ math_random env (trace ?w1) @ str ''.png'' = ?name"
    using a by simp
  have "str ''img-'' @ math_random env (trace ?w1) @ str ''.png'' \<in> uploads ?w1"
    unfolding same by (simp add: d)
  from download_skip [OF this, of url']
  have s: "downloadImageToUploads env url' ?w1 = (Inr ?name, emit RandomDraw ?w1)"
    unfolding same .
  show "fst (downloadImageToUploads env url' ?w1) = Inr ?name"
    by (simp add: s)
  show "fetched (snd (downloadImageToUploads env url' ?w1)) = fetched w @ [url]"
    unfolding s by (simp add: fetched_emit) (simp add: d fetched_def)
next
  assume "imageUrls item = u # us \<and> fst (downloadImageToUploads env u w) = Inr f"
  then show "imageUrls (fst (materialize_item env item w))
      = [str ''https://aisocial.dev/api/uploads/'' @ f]"
    by (auto simp: materialize_item_def split: prod.splits sum.splits)
next
  assume "str ''img-'' @ math_random env (trace w) @ str ''.png'' \<notin> uploads w
       \<and> http_get env (trace w @ [RandomDraw]) url = Downloaded"
  then show "downloadImageToUploads env url w
      = (Inr (str ''img-'' @ math_random env (trace w) @ str ''.png''),
         w\<lparr>uploads := insert (str ''img-'' @ math_random env (trace w) @ str ''.png'') (uploads w),
           trace := trace w @ [RandomDraw, HttpGet url]\<rparr>)"
    by (intro download_stream) auto
next
  assume "imageUrls item = []"
  then show "materialize_item env item w = (item, w)" by (rule materialize_item_none)
next
  assume "imageUrls item = u # us"
  then show "snd (materialize_item env item w) = snd (downloadImageToUploads env u w)"
    by (cases "downloadImageToUploads env u w")
      (auto simp: materialize_item_def split: sum.splits)
next
  assume "imageUrls item = u # us
       \<and> str ''img-'' @ math_random env (trace w) @ str ''.png'' \<in> uploads w"
  then show "materialize_item env item w
      = (item\<lparr>imageUrls := [str ''https://aisocial.dev/api/uploads/''
                               @ str ''img-'' @ math_random env (trace w) @ str ''.png'']\<rparr>,
         emit RandomDraw w)"
    by (intro materialize_item_skip) auto
next
  assume "imageUrls item = u # us
       \<and> str ''img-'' @ math_random env (trace w) @ str ''.png'' \<notin> uploads w
       \<and> http_get env (trace w @ [RandomDraw]) u = Downloaded"
  then show "materialize_item env item w
      = (item\<lparr>imageUrls := [str ''https://aisocial.dev/api/uploads/''
                               @ str ''img-'' @ math_random env (trace w) @ str ''.png'']\<rparr>,
         w\<lparr>uploads := insert (str ''img-'' @ math_random env (trace w) @ str ''.png'') (uploads w),
           trace := trace w @ [RandomDraw, HttpGet u]\<rparr>)"
    by (intro materialize_item_stream) auto
qed

text \<open>The theorem in the example environment, whose random text is always the same:
  the first request downloads, the second finds the file and fetches nothing; the
  controllers' step on a suggestion with two URLs fetches the first and stores the file.\<close>

theorem materialize_idempotent_witness:
  "fst (downloadImageToUploads env0 (str ''https://img/1'') world0) = Inr (str ''img-k3x9.png'')
   \<and> fetched (snd (downloadImageToUploads env0 (str ''https://img/2'')
                   (snd (downloadImageToUploads env0 (str ''https://img/1'') world0))))
       = [str ''https://img/1'']
   \<and> downloadImageToUploads env0 (str ''https://img/2'') (world0\<lparr>uploads := {str ''img-k3x9.png''}\<rparr>)
       = (Inr (str ''img-k3x9.png''), emit RandomDraw (world0\<lparr>uploads := {str ''img-k3x9.png''}\<rparr>))
   \<and> imageUrls (fst (materialize_item env0
         \<lparr>item_fields = [], imageUrls = [str ''https://img/1'', str ''https://img/2'']\<rparr> world0))
       = [str ''https://aisocial.dev/api/uploads/img-k3x9.png'']
   \<and> materialize_item env0
         \<lparr>item_fields = [], imageUrls = [str ''https://img/1'', str ''https://img/2'']\<rparr> world0
       = (\<lparr>item_fields = [], imageUrls = [str ''https://aisocial.dev/api/uploads/img-k3x9.png'']\<rparr>,
          world0\<lparr>uploads := {str ''img-k3x9.png''},
                 trace := [RandomDraw, HttpGet (str ''https://img/1'')]\<rparr>)
   \<and> materialize_item env0
         \<lparr>item_fields = [], imageUrls = [str ''https://img/1'', str ''https://img/2'']\<rparr>
         (world0\<lparr>uploads := {str ''img-k3x9.png''}\<rparr>)
       = (\<lparr>item_fields = [], imageUrls = [str ''https://aisocial.dev/api/uploads/img-k3x9.png'']\<rparr>,
          emit RandomDraw (world0\<lparr>uploads := {str ''img-k3x9.png''}\<rparr>))
   \<and> materialize_item env0 \<lparr>item_fields = [], imageUrls = []\<rparr> world0
       = (\<lparr>item_fields = [], imageUrls = []\<rparr>, world0)
   \<and> snd (materialize_item env0
         \<lparr>item_fields = [], imageUrls = [str ''https://img/1'', str ''https://img/2'']\<rparr> world0)
       = snd (downloadImageToUploads env0 (str ''https://img/1'') world0)"
proof -
  let ?u1 = "str ''https://img/1''" and ?u2 = "str ''https://img/2''"
  let ?item = "\<lparr>item_fields = [], imageUrls = [?u1, ?u2]\<rparr>"
  let ?w1 = "world0\<lparr>uploads := {str ''img-k3x9.png''}\<rparr>"
  note T = materialize_idempotent
        [where env = env0 and w = world0 and url = ?u1 and url' = ?u2
           and f = "str ''img-k3x9.png''" and item = ?item and u = ?u1 and us = "[?u2]"]
  note S = materialize_idempotent
        [where env = env0 and w = ?w1 and url = ?u2 and item = ?item and u = ?u1 and us = "[?u2]"]
  note E = materialize_idempotent
        [where env = env0 and w = world0 and item = "\<lparr>item_fields = [], imageUrls = []\<rparr>"]
  note T5 = T [THEN conjunct2, THEN conjunct2, THEN conjunct2, THEN conjunct2]
  note S5 = S [THEN conjunct2, THEN conjunct2, THEN conjunct2, THEN conjunct2]
  note E5 = E [THEN conjunct2, THEN conjunct2, THEN conjunct2, THEN conjunct2]
  have name: "str ''img-'' @ math_random env0 (trace world0) @ str ''.png'' = str ''img-k3x9.png''"
    by simp
  have fresh: "str ''img-'' @ math_random env0 (trace world0) @ str ''.png'' \<notin> uploads world0
       \<and> http_get env0 (trace world0 @ [RandomDraw]) ?u1 = Downloaded"
    by simp
  have c1: "fst (downloadImageToUploads env0 ?u1 world0) = Inr (str ''img-k3x9.png'')"
    using T [THEN conjunct2, THEN conjunct2, THEN conjunct1] fresh name by simp
  have again: "math_random env0 (trace (snd (downloadImageToUploads env0 ?u1 world0)))
      = math_random env0 (trace world0)"
    by simp
  have c2: "fetched (snd (downloadImageToUploads env0 ?u2 (snd (downloadImageToUploads env0 ?u1 world0))))
      = [?u1]"
    using T [THEN conjunct2, THEN conjunct2, THEN conjunct2, THEN conjunct1] fresh again
    by (simp add: fetched_def)
  have there: "str ''img-'' @ math_random env0 (trace ?w1) @ str ''.png'' \<in> uploads ?w1"
    by simp
  have c3: "downloadImageToUploads env0 ?u2 ?w1 = (Inr (str ''img-k3x9.png''), emit RandomDraw ?w1)"
    using S [THEN conjunct2, THEN conjunct1] there by simp
  have c4: "imageUrls (fst (materialize_item env0 ?item world0))
      = [str ''https://aisocial.dev/api/uploads/img-k3x9.png'']"
    using T5 [THEN conjunct1] c1 by simp
  have c5: "materialize_item env0 ?item world0
      = (\<lparr>item_fields = [], imageUrls = [str ''https://aisocial.dev/api/uploads/img-k3x9.png'']\<rparr>,
         world0\<lparr>uploads := {str ''img-k3x9.png''},
                trace := [RandomDraw, HttpGet (str ''https://img/1'')]\<rparr>)"
    using T5 [THEN conjunct2, THEN conjunct2, THEN conjunct2, THEN conjunct2, THEN conjunct2] fresh
    by simp
  have c6: "materialize_item env0 ?item ?w1
      = (\<lparr>item_fields = [], imageUrls = [str ''https://aisocial.dev/api/uploads/img-k3x9.png'']\<rparr>,
         emit RandomDraw ?w1)"
    using S5 [THEN conjunct2, THEN conjunct2, THEN conjunct2, THEN conjunct2, THEN conjunct1] there
    by simp
  have c7: "materialize_item env0 \<lparr>item_fields = [], imageUrls = []\<rparr> world0
      = (\<lparr>item_fields = [], imageUrls = []\<rparr>, world0)"
    using E5 [THEN conjunct2, THEN conjunct2, THEN conjunct1] by simp
  have c8: "snd (materialize_item env0 ?item world0) = snd (downloadImageToUploads env0 ?u1 world0)"
    using T5 [THEN conjunct2, THEN conjunct2, THEN conjunct2, THEN conjunct1] by simp
  show ?thesis using c1 c2 c3 c4 c5 c6 c7 c8 by (simp only: simp_thms)
qed

section \<open>Properties of the social post cache\<close>

lemma store_post_ids_mono: "post_ids w \<subseteq> post_ids (store_post uid p w)"
  by (auto simp: store_post_def post_ids_def emit_def split: option.splits)

lemma store_posts_ids_mono: "post_ids w \<subseteq> post_ids (store_posts uid ps w)"
proof (induction ps arbitrary: w)
  case Nil
  then show ?case by simp
next
  case (Cons p ps)
  then show ?case using store_post_ids_mono [of w uid p] by fastforce
qed

lemma store_post_stored:
  "ig_id p = Some pid \<Longrightarrow> pid \<noteq> [] \<Longrightarrow> pid \<in> post_ids (store_post uid p w)"
  by (auto simp: store_post_def post_ids_def emit_def new_post_def)

lemma store_posts_stored:
  "p \<in> set ps \<Longrightarrow> ig_id p = Some pid \<Longrightarrow> pid \<noteq> [] \<Longrightarrow> pid \<in> post_ids (store_posts uid ps w)"
proof (induction ps arbitrary: w)
  case Nil
  then show ?case by simp
next
  case (Cons q ps)
  show ?case
  proof (cases "p = q")
    case True
    then have "pid \<in> post_ids (store_post uid q w)"
      using Cons.prems by (simp add: store_post_stored)
    then show ?thesis using store_posts_ids_mono [of "store_post uid q w" uid ps] by auto
  next
    case False
    then show ?thesis using Cons by simp
  qed
qed

lemma store_post_known:
  "(\<forall>pid. ig_id p = Some pid \<and> pid \<noteq> [] \<longrightarrow> pid \<in> post_ids w) \<Longrightarrow> store_post uid p w = w"
  by (auto simp: store_post_def post_ids_def split: option.splits)

lemma store_posts_known:
  "(\<forall>p\<in>set ps. \<forall>pid. ig_id p = Some pid \<and> pid \<noteq> [] \<longrightarrow> pid \<in> post_ids w) \<Longrightarrow>
   store_posts uid ps w = w"
  by (induction ps arbitrary: w) (simp_all add: store_post_known)

lemma store_posts_idem: "store_posts uid ps (store_posts uid ps w) = store_posts uid ps w"
  by (intro store_posts_known) (use store_posts_stored in blast)

lemma store_post_distinct:
  "distinct (map instagramId (instagramPosts w)) \<Longrightarrow>
   distinct (map instagramId (instagramPosts (store_post uid p w)))"
  by (auto simp: store_post_def emit_def new_post_def split: option.splits)

lemma store_posts_distinct:
  "distinct (map instagramId (instagramPosts w)) \<Longrightarrow>
   distinct (map instagramId (instagramPosts (store_posts uid ps w)))"
  by (induction ps arbitrary: w) (simp_all add: store_post_distinct)

lemma store_post_cong:
  "instagramPosts w = instagramPosts v \<Longrightarrow>
   instagramPosts (store_post uid p w) = instagramPosts (store_post uid p v)"
  by (auto simp: store_post_def emit_def split: option.splits)

lemma store_posts_cong:
  "instagramPosts w = instagramPosts v \<Longrightarrow>
   instagramPosts (store_posts uid ps w) = instagramPosts (store_posts uid ps v)"
proof (induction ps arbitrary: w v)
  case Nil
  then show ?case by simp
next
  case (Cons p ps)
  show ?case
    using Cons.IH [OF store_post_cong [OF Cons.prems, of uid p]] by simp
qed

lemma fetch_twice:
  assumes "\<forall>h. instagram_api env h token = Inr (Some ps)"
  shows "instagramPosts (snd (fetchAndStoreInstagramPosts env uid token
                                (snd (fetchAndStoreInstagramPosts env uid token w))))
       = instagramPosts (snd (fetchAndStoreInstagramPosts env uid token w))"
proof (cases "length ps = 0")
  case True
  then show ?thesis using assms by (simp add: fetchAndStoreInstagramPosts_def emit_def)
next
  case False
  let ?w1 = "store_posts uid ps (emit (InstagramCall token) w)"
  have 1: "snd (fetchAndStoreInstagramPosts env uid token w) = ?w1"
    using assms False by (simp add: fetchAndStoreInstagramPosts_def)
  have 2: "snd (fetchAndStoreInstagramPosts env uid token ?w1)
      = store_posts uid ps (emit (InstagramCall token) ?w1)"
    using assms False by (simp add: fetchAndStoreInstagramPosts_def)
  have "instagramPosts (store_posts uid ps (emit (InstagramCall token) ?w1))
      = instagramPosts (store_posts uid ps ?w1)"
    by (intro store_posts_cong) (simp add: emit_def)
  then show ?thesis
    unfolding 1 2 by (simp add: store_posts_idem)
qed

lemma image_step_posts: "instagramPosts (snd (image_step env profile s w)) = instagramPosts w"
  by (auto simp: image_step_def Let_def emit_def split: option.splits sum.splits)

lemma generateImages_posts:
  "instagramPosts (snd (generateImagesForSuggestions env profile ss w)) = instagramPosts w"
proof (induction ss arbitrary: w)
  case Nil
  then show ?case by simp
next
  case (Cons s ss)
  obtain r w1 where st: "image_step env profile s w = (r, w1)"
    by (cases "image_step env profile s w")
  then have 1: "instagramPosts w1 = instagramPosts w"
    using image_step_posts [of env profile s w] by simp
  show ?case
  proof (cases r)
    case (Inl e)
    then show ?thesis using 1 st by simp
  next
    case (Inr x)
    obtain r2 w2 where g: "generateImagesForSuggestions env profile ss w1 = (r2, w2)"
      by (cases "generateImagesForSuggestions env profile ss w1")
    then have "instagramPosts w2 = instagramPosts w1" using Cons [of w1] by simp
    then show ?thesis using 1 st Inr g by (cases r2) simp_all
  qed
qed

lemma complete_posts: "instagramPosts (snd (complete env profile prompt w)) = instagramPosts w"
  by (auto simp: complete_def Let_def generateImages_posts emit_def split: sum.splits)

lemma env_ig_simps [simp]:
  "instagram_api env_ig h t = Inr (Some five_media)" "math_random env_ig h = str ''k3x9''"
  "http_get env_ig h u = Downloaded" "chat_api env_ig h p = Inr (Some (str ''[{},{},{}]''))"
  "image_api env_ig h p = Inr (Some [str ''https://img/1'', str ''https://img/2''])"
  "date_now env_ig h = 100000000" "number_text env_ig n = n" "isValidObjectId env_ig s"
  by (simp_all add: env_ig_def)

text \<open>
  Claim C9.  A fetched post whose id is already stored is skipped, so storing a fetched
  list keeps the stored ids distinct and storing the same list again changes nothing.
  When the platform answers two fetches with the same list, the second fetch leaves the
  stored posts as the first left them; so does \<open>generateContentFromProfile\<close> with
  \<open>updateInstagramPosts\<close>, which fetches twice in a row.
\<close>

theorem fetch_dedup:
  "(distinct (map instagramId (instagramPosts w))
      \<longrightarrow> distinct (map instagramId (instagramPosts (store_posts uid ps w))))
   \<and> (ig_id p = Some pid \<and> pid \<in> post_ids w \<longrightarrow> store_post uid p w = w)
   \<and> store_posts uid ps (store_posts uid ps w) = store_posts uid ps w
   \<and> ((\<forall>h. instagram_api env h token = Inr (Some ps))
      \<longrightarrow> instagramPosts (snd (fetchAndStoreInstagramPosts env uid token
                                  (snd (fetchAndStoreInstagramPosts env uid token w))))
          = instagramPosts (snd (fetchAndStoreInstagramPosts env uid token w)))
   \<and> ((\<forall>h. instagram_api env h token = Inr (Some ps)) \<and> uid \<noteq> [] \<and> token \<noteq> []
      \<longrightarrow> instagramPosts (snd (generateContentFromProfile env profile (Some uid) (Some token)
                                  count True w))
          = instagramPosts (snd (fetchAndStoreInstagramPosts env uid token w)))"
proof (intro conjI impI)
  assume "distinct (map instagramId (instagramPosts w))"
  then show "distinct (map instagramId (instagramPosts (store_posts uid ps w)))"
    by (rule store_posts_distinct)
next
  assume "ig_id p = Some pid \<and> pid \<in> post_ids w"
  then show "store_post uid p w = w" by (intro store_post_known) auto
next
  show "store_posts uid ps (store_posts uid ps w) = store_posts uid ps w"
    by (rule store_posts_idem)
next
  assume "\<forall>h. instagram_api env h token = Inr (Some ps)"
  then show "instagramPosts (snd (fetchAndStoreInstagramPosts env uid token
                                  (snd (fetchAndStoreInstagramPosts env uid token w))))
          = instagramPosts (snd (fetchAndStoreInstagramPosts env uid token w))"
    by (rule fetch_twice)
next
  assume a: "(\<forall>h. instagram_api env h token = Inr (Some ps)) \<and> uid \<noteq> [] \<and> token \<noteq> []"
  obtain w1 where f1: "fetchAndStoreInstagramPosts env uid token w = (Inr (), w1)"
    using a by (cases "fetchAndStoreInstagramPosts env uid token w")
      (auto simp: fetchAndStoreInstagramPosts_def split: if_splits)
  obtain w2 where f2: "fetchAndStoreInstagramPosts env uid token w1 = (Inr (), w2)"
    using a by (cases "fetchAndStoreInstagramPosts env uid token w1")
      (auto simp: fetchAndStoreInstagramPosts_def split: if_splits)
  have "instagramPosts w2 = instagramPosts w1"
    using fetch_twice [of env token ps uid w] a f1 f2 by simp
  moreover have "instagramPosts (snd (generateContentFromProfile env profile (Some uid) (Some token)
                                  count True w))
      = instagramPosts w2"
    using a f1 f2
    by (simp add: generateContentFromProfile_def generateContentBasedOnProfileAndInstagram_def
        complete_posts)
  ultimately show "instagramPosts (snd (generateContentFromProfile env profile (Some uid) (Some token)
                                  count True w))
          = instagramPosts (snd (fetchAndStoreInstagramPosts env uid token w))"
    using f1 by simp
qed


lemma new_post_id [simp]: "instagramId (new_post uid pid m) = pid"
  by (simp add: new_post_def)

lemma example_media_id [simp]: "ig_id (example_media pid n) = Some pid"
  by (simp add: example_media_def)

lemma fetch_five:
  "instagramPosts (snd (fetchAndStoreInstagramPosts env_ig uid token world0)) = cached_five uid"
  by (simp add: fetchAndStoreInstagramPosts_def five_media_def store_post_def emit_def
      cached_five_def)

text \<open>The theorem where the platform lists five posts, one of them twice: five posts
  are cached, and fetching again, alone or within a generation, caches no more.\<close>

theorem fetch_dedup_witness:
  "map instagramId (instagramPosts (snd (fetchAndStoreInstagramPosts env_ig (str ''u1'') (str ''tok'') world0)))
     = [str ''a'', str ''b'', str ''c'', str ''d'', str ''e'']
   \<and> instagramPosts (snd (fetchAndStoreInstagramPosts env_ig (str ''u1'') (str ''tok'')
                           (snd (fetchAndStoreInstagramPosts env_ig (str ''u1'') (str ''tok'') world0))))
     = cached_five (str ''u1'')
   \<and> instagramPosts (snd (generateContentFromProfile env_ig bakery (Some (str ''u1''))
                           (Some (str ''tok'')) 3 True world0))
     = cached_five (str ''u1'')
   \<and> distinct (map instagramId (instagramPosts (store_posts (str ''u1'') five_media world0)))
   \<and> store_post (str ''u1'') (example_media (str ''a'') 10)
         (snd (fetchAndStoreInstagramPosts env_ig (str ''u1'') (str ''tok'') world0))
       = snd (fetchAndStoreInstagramPosts env_ig (str ''u1'') (str ''tok'') world0)"
proof -
  let ?w1 = "snd (fetchAndStoreInstagramPosts env_ig (str ''u1'') (str ''tok'') world0)"
  note T = fetch_dedup [where env = env_ig and w = world0 and uid = "str ''u1''"
      and token = "str ''tok''" and ps = five_media and profile = bakery and count = 3]
  note S = fetch_dedup [where w = ?w1 and uid = "str ''u1''" and p = "example_media (str ''a'') 10"
      and pid = "str ''a''"]
  have api: "\<forall>h. instagram_api env_ig h (str ''tok'') = Inr (Some five_media)" by simp
  have c1: "map instagramId (instagramPosts ?w1) = [str ''a'', str ''b'', str ''c'', str ''d'', str ''e'']"
    by (simp add: fetch_five cached_five_def)
  have c2: "instagramPosts (snd (fetchAndStoreInstagramPosts env_ig (str ''u1'') (str ''tok'') ?w1))
      = cached_five (str ''u1'')"
    using T [THEN conjunct2, THEN conjunct2, THEN conjunct2, THEN conjunct1] api
    by (simp add: fetch_five)
  have c3: "instagramPosts (snd (generateContentFromProfile env_ig bakery (Some (str ''u1''))
                           (Some (str ''tok'')) 3 True world0)) = cached_five (str ''u1'')"
    using T [THEN conjunct2, THEN conjunct2, THEN conjunct2, THEN conjunct2] api
    by (simp add: fetch_five)
  have c4: "distinct (map instagramId (instagramPosts (store_posts (str ''u1'') five_media world0)))"
    using T [THEN conjunct1] by simp
  have "ig_id (example_media (str ''a'') 10) = Some (str ''a'') \<and> str ''a'' \<in> post_ids ?w1"
    by (simp add: post_ids_def fetch_five cached_five_def)
  then have c5: "store_post (str ''u1'') (example_media (str ''a'') 10) ?w1 = ?w1"
    using S [THEN conjunct2, THEN conjunct1] by simp
  show ?thesis using c1 c2 c3 c4 c5 by (simp only: simp_thms)
qed

section \<open>The summarizer and its digest\<close>






lemma five_ranked:
  "topPosts (str ''u1'') (world0\<lparr>instagramPosts := cached_five (str ''u1'')\<rparr>)
     = [new_post (str ''u1'') (str ''d'') (example_media (str ''d'') 80),
        new_post (str ''u1'') (str ''b'') (example_media (str ''b'') 50),
        new_post (str ''u1'') (str ''e'') (example_media (str ''e'') 20),
        new_post (str ''u1'') (str ''a'') (example_media (str ''a'') 10),
        new_post (str ''u1'') (str ''c'') (example_media (str ''c'') 5)]"
  by (simp add: topPosts_def cached_five_def new_post_def example_media_def or_zero_def)




lemma show_nat_examples:
  "show_nat 1 = str ''1''" "show_nat 2 = str ''2''" "show_nat 3 = str ''3''"
  "show_nat 4 = str ''4''" "show_nat 5 = str ''5''" "show_nat 0 = str ''0''"
  "show_nat 80 = str ''80''" "show_nat 50 = str ''50''" "show_nat 20 = str ''20''"
  "show_nat 10 = str ''10''" "show_nat 30 = str ''30''"
  by code_simp+






end
